theory Spec2Isabelle
  imports Main
begin

section \<open>Strings, character classes and Python idioms\<close>

text \<open>
  File names, session names and log text are modelled as \<open>string\<close> (lists of 8-bit
  characters).  The character classes of the regular expressions in the source are the
  ASCII ones: \<open>\d\<close> is \<open>0-9\<close> and \<open>\w\<close> is \<open>[A-Za-z0-9_]\<close>.
\<close>

definition newline :: char where
  "newline = CHR 0x0A"

definition is_digit :: "char \<Rightarrow> bool" where
  "is_digit c = (48 \<le> (of_char c :: nat) \<and> (of_char c :: nat) \<le> 57)"

definition is_word :: "char \<Rightarrow> bool" where
  "is_word c = (let n = (of_char c :: nat) in
     (48 \<le> n \<and> n \<le> 57) \<or> (65 \<le> n \<and> n \<le> 90) \<or> (97 \<le> n \<and> n \<le> 122) \<or> n = 95)"

definition digit_val :: "char \<Rightarrow> nat" where
  "digit_val c = (of_char c :: nat) - 48"

definition digit_char :: "nat \<Rightarrow> char" where
  "digit_char n = char_of (48 + n)"

text \<open>\<open>s.startswith(p)\<close>, and the rest of \<open>s\<close> after a literal prefix.\<close>

definition starts_with :: "string \<Rightarrow> string \<Rightarrow> bool" where
  "starts_with p s = (take (length p) s = p)"

definition strip_prefix :: "string \<Rightarrow> string \<Rightarrow> string option" where
  "strip_prefix p s = (if starts_with p s then Some (drop (length p) s) else None)"

definition ends_with :: "string \<Rightarrow> string \<Rightarrow> bool" where
  "ends_with p s = (length p \<le> length s \<and> drop (length s - length p) s = p)"

text \<open>Python's \<open>sub in s\<close> on strings.\<close>

fun contains :: "string \<Rightarrow> string \<Rightarrow> bool" where
  "contains sub [] = (sub = [])"
| "contains sub (c # cs) = (starts_with sub (c # cs) \<or> contains sub cs)"

text \<open>Truth value of an \<open>Optional[str]\<close>: \<open>None\<close> and the empty string are falsy.\<close>

fun truthy :: "string option \<Rightarrow> bool" where
  "truthy None = False"
| "truthy (Some s) = (s \<noteq> [])"

text \<open>Decimal digits of a natural number, and the format \<open>{seq:03d}\<close>.\<close>

fun dec :: "nat \<Rightarrow> string" where
  "dec n = (if n < 10 then [digit_char n] else dec (n div 10) @ [digit_char (n mod 10)])"

declare dec.simps [simp del]

definition zero_pad :: "nat \<Rightarrow> string \<Rightarrow> string" where
  "zero_pad w s = replicate (w - length s) (CHR ''0'') @ s"

definition fmt03 :: "int \<Rightarrow> string" where
  "fmt03 i = (if i < 0 then CHR ''-'' # zero_pad 2 (dec (nat (- i))) else zero_pad 3 (dec (nat i)))"

text \<open>
  \<open>s.replace(old, new)\<close>: every non-overlapping occurrence, left to right.  The counter
  skips the characters of an occurrence that has just been replaced.
\<close>

fun replace_from :: "string \<Rightarrow> string \<Rightarrow> nat \<Rightarrow> string \<Rightarrow> string" where
  "replace_from old new k [] = []"
| "replace_from old new (Suc k) (c # cs) = replace_from old new k cs"
| "replace_from old new 0 (c # cs) =
     (if starts_with old (c # cs) then new @ replace_from old new (length old - 1) cs
      else c # replace_from old new 0 cs)"

definition py_replace :: "string \<Rightarrow> string \<Rightarrow> string \<Rightarrow> string" where
  "py_replace old new s =
     (if old = [] then new @ concat (map (\<lambda>c. c # new) s) else replace_from old new 0 s)"

section \<open>Directory and file reconciliation\<close>

subsection \<open>The directory model\<close>

text \<open>
  A session directory is the list of its entries in the order \<open>iterdir()\<close> yields
  them.  An entry keeps its modification time and its content when it is renamed, and
  keeps its place in the listing.  \<open>rename_fails\<close> and \<open>mkdir_fails\<close> say which
  operating-system calls raise \<open>OSError\<close>.
\<close>

record entry =
  e_name :: string
  e_is_file :: bool
  e_mtime :: int
  e_data :: string

type_synonym dir = "entry list"

record item =
  i_name :: string
  i_is_dir :: bool
  i_files :: dir

type_synonym base = "item list"

record io_faults =
  rename_fails :: "string \<Rightarrow> string \<Rightarrow> bool"
  mkdir_fails :: "string \<Rightarrow> bool"

datatype exn = OSError | UnicodeDecodeError | JSONDecodeError | AttributeError | TypeError

definition names :: "dir \<Rightarrow> string list" where
  "names d = map e_name d"

definition rename_entry :: "dir \<Rightarrow> string \<Rightarrow> string \<Rightarrow> dir" where
  "rename_entry d src dst = map (\<lambda>e. if e_name e = src then e\<lparr>e_name := dst\<rparr> else e) d"

subsection \<open>Names\<close>

definition sanitize_dirname :: "string \<Rightarrow> string" where
  "sanitize_dirname name =
     take 50 (map (\<lambda>c. if c \<in> set ''<>:/|?*'' \<or> c = CHR 0x22 \<or> c = CHR 0x5C
                            \<or> (of_char c :: nat) < 32 then CHR ''_'' else c) name)"

definition build_session_directory :: "string option \<Rightarrow> string \<Rightarrow> string \<Rightarrow> string" where
  "build_session_directory session_name session_id username =
     (if truthy session_name
      then sanitize_dirname (the session_name) @ ''__'' @ session_id @ ''_'' @ username
      else ''__'' @ session_id @ ''_'' @ username)"

definition build_filename ::
  "string \<Rightarrow> string \<Rightarrow> string \<Rightarrow> string option \<Rightarrow> string \<Rightarrow> string \<Rightarrow> int option \<Rightarrow> string" where
  "build_filename prefix file_type shell session_name session_id username seq =
     (if truthy session_name then
        (case seq of
           Some n \<Rightarrow> ''.'' @ prefix @ file_type @ ''_'' @ shell @ ''__'' @ the session_name
                      @ ''--'' @ fmt03 n @ ''__'' @ session_id @ ''_'' @ username @ ''.log''
         | None \<Rightarrow> ''.'' @ prefix @ file_type @ ''_'' @ shell @ ''__'' @ the session_name
                      @ ''__'' @ session_id @ ''_'' @ username @ ''.log'')
      else ''.'' @ prefix @ file_type @ ''_'' @ shell @ ''_'' @ session_id @ ''_'' @ username @ ''.log'')"

text \<open>\<open>re.search(r"--\d{3}__", name)\<close>.\<close>

definition seq_tag_here :: "string \<Rightarrow> bool" where
  "seq_tag_here s = (7 \<le> length s \<and> take 2 s = ''--'' \<and> list_all is_digit (take 3 (drop 2 s))
                     \<and> take 2 (drop 5 s) = ''__'')"

fun has_sequence_number :: "string \<Rightarrow> bool" where
  "has_sequence_number [] = False"
| "has_sequence_number (c # cs) = (seq_tag_here (c # cs) \<or> has_sequence_number cs)"

text \<open>
  The tail \<open>\w+(\.log)?$\<close> of the pattern of \<open>find_session_files\<close>: \<open>$\<close> also matches
  before a final newline.
\<close>

definition chop_suffix :: "string \<Rightarrow> string \<Rightarrow> string" where
  "chop_suffix p s = (if ends_with p s then take (length s - length p) s else s)"

definition user_tail :: "string \<Rightarrow> bool" where
  "user_tail u = (let w = chop_suffix ''.log'' (chop_suffix [newline] u)
                  in w \<noteq> [] \<and> list_all is_word w)"

text \<open>
  \<open>.*{session_id}_\w+(\.log)?$\<close>: some occurrence of the session id is preceded by
  characters other than newline and followed by \<open>_\<close> and the tail.
\<close>

definition guid_tail :: "string \<Rightarrow> string \<Rightarrow> bool" where
  "guid_tail session_id r =
     list_ex (\<lambda>i. newline \<notin> set (take i r)
                  \<and> starts_with (session_id @ ''_'') (drop i r)
                  \<and> user_tail (drop (i + length session_id + 1) r))
             [0..<Suc (length r)]"

text \<open>The whole pattern \<open>^\.{prefix}{file_type}_[^_]+_.*{session_id}_\w+(\.log)?$\<close>.\<close>

definition session_file_match :: "string \<Rightarrow> string \<Rightarrow> string \<Rightarrow> string \<Rightarrow> bool" where
  "session_file_match prefix file_type session_id name =
     (case strip_prefix (''.'' @ prefix @ file_type @ ''_'') name of
        None \<Rightarrow> False
      | Some r \<Rightarrow>
          takeWhile (\<lambda>c. c \<noteq> CHR ''_'') r \<noteq> []
          \<and> (case dropWhile (\<lambda>c. c \<noteq> CHR ''_'') r of
                [] \<Rightarrow> False
              | u # r' \<Rightarrow> guid_tail session_id r'))"

definition find_session_files :: "dir \<Rightarrow> string \<Rightarrow> string \<Rightarrow> string \<Rightarrow> entry list" where
  "find_session_files sesslog_dir session_id prefix file_type =
     filter (\<lambda>f. e_is_file f \<and> session_file_match prefix file_type session_id (e_name f)) sesslog_dir"

text \<open>
  The pattern of \<open>find_max_sequence\<close> has no wildcard:
  \<open>^\.{prefix}{type}_{shell}__{name}--(\d{3})__{guid}_{user}(\.log)?$\<close>.
\<close>

definition seq_of_name ::
  "string \<Rightarrow> string \<Rightarrow> string \<Rightarrow> string \<Rightarrow> string \<Rightarrow> string \<Rightarrow> string \<Rightarrow> int option" where
  "seq_of_name prefix file_type shell session_name session_id username name =
     (case strip_prefix (''.'' @ prefix @ file_type @ ''_'' @ shell @ ''__'' @ session_name @ ''--'') name of
        None \<Rightarrow> None
      | Some r \<Rightarrow>
          if length r < 3 \<or> \<not> list_all is_digit (take 3 r) then None
          else (case strip_prefix (''__'' @ session_id @ ''_'' @ username) (drop 3 r) of
                  None \<Rightarrow> None
                | Some t \<Rightarrow>
                    if chop_suffix ''.log'' (chop_suffix [newline] t) = []
                    then Some (int (100 * digit_val (r ! 0) + 10 * digit_val (r ! 1) + digit_val (r ! 2)))
                    else None))"

definition find_max_sequence ::
  "dir \<Rightarrow> string \<Rightarrow> string \<Rightarrow> string \<Rightarrow> string \<Rightarrow> string \<Rightarrow> string \<Rightarrow> int" where
  "find_max_sequence sesslog_dir prefix file_type shell session_name session_id username =
     foldl (\<lambda>max_seq f.
              case seq_of_name prefix file_type shell session_name session_id username (e_name f) of
                None \<Rightarrow> max_seq
              | Some s \<Rightarrow> max max_seq s)
       (- 1) sesslog_dir"

subsection \<open>Renaming\<close>

definition safe_rename :: "io_faults \<Rightarrow> dir \<Rightarrow> string \<Rightarrow> string \<Rightarrow> dir \<times> bool" where
  "safe_rename io d src dst =
     (if src = dst then (d, True)
      else if dst \<in> set (names d) then (d, False)
      else if src \<notin> set (names d) \<or> rename_fails io src dst then (d, False)
      else (rename_entry d src dst, True))"

text \<open>The loop over \<open>older_files\<close> of \<open>reconcile_single_category\<close>.\<close>

fun sequence_older ::
  "io_faults \<Rightarrow> (int \<Rightarrow> string) \<Rightarrow> string list \<Rightarrow> int \<Rightarrow> dir \<Rightarrow> dir" where
  "sequence_older io seq_name [] next_seq d = d"
| "sequence_older io seq_name (old_file # rest) next_seq d =
     (if has_sequence_number old_file then sequence_older io seq_name rest next_seq d
      else (case safe_rename io d old_file (seq_name next_seq) of
              (d', True) \<Rightarrow> sequence_older io seq_name rest (next_seq + 1) d'
            | (d', False) \<Rightarrow> sequence_older io seq_name rest next_seq d'))"

text \<open>
  \<open>reconcile_single_category\<close> returns the directory after its renames and the name
  of the target file inside it.
\<close>

definition reconcile_single_category ::
  "io_faults \<Rightarrow> dir \<Rightarrow> string \<Rightarrow> string \<Rightarrow> string \<Rightarrow> string \<Rightarrow> string \<Rightarrow> string \<Rightarrow> dir \<times> string" where
  "reconcile_single_category io sesslog_dir session_id session_name shell username prefix file_type =
     (let files = find_session_files sesslog_dir session_id prefix file_type;
          target_name = build_filename prefix file_type shell (Some session_name) session_id username None;
          seq_name = (\<lambda>n. build_filename prefix file_type shell (Some session_name) session_id username (Some n))
      in case files of
           [] \<Rightarrow> (sesslog_dir, target_name)
         | [only_file] \<Rightarrow>
             if e_name only_file = target_name then (sesslog_dir, target_name)
             else (fst (safe_rename io sesslog_dir (e_name only_file) target_name), target_name)
         | _ \<Rightarrow>
             let files_sorted = sort_key e_mtime files;
                 current_file = e_name (last files_sorted);
                 older_files = map e_name (butlast files_sorted);
                 max_seq = find_max_sequence sesslog_dir prefix file_type shell session_name
                             session_id username;
                 (d1, max_seq1) =
                   (if current_file \<noteq> target_name then
                      (if target_name \<in> set (names sesslog_dir) \<and> target_name \<noteq> current_file
                       then (fst (safe_rename io sesslog_dir current_file (seq_name (max_seq + 1))),
                             max_seq + 1)
                       else (fst (safe_rename io sesslog_dir current_file target_name), max_seq))
                    else (sesslog_dir, max_seq))
             in (sequence_older io seq_name older_files (max_seq1 + 1) d1, target_name))"

text \<open>
  \<open>reconcile_session_files\<close>: the targets are returned as the dictionary's items in
  insertion order.
\<close>

fun reconcile_categories ::
  "io_faults \<Rightarrow> string \<Rightarrow> string \<Rightarrow> string \<Rightarrow> string \<Rightarrow> (string \<times> string) list
     \<Rightarrow> dir \<Rightarrow> dir \<times> (string \<times> string) list" where
  "reconcile_categories io session_id session_name shell username [] d = (d, [])"
| "reconcile_categories io session_id session_name shell username ((prefix, file_type) # cats) d =
     (let (d1, target) = reconcile_single_category io d session_id session_name shell username
                           prefix file_type;
          (d2, targets) = reconcile_categories io session_id session_name shell username cats d1
      in (d2, (prefix @ file_type, target) # targets))"

definition categories :: "(string \<times> string) list" where
  "categories = [(prefix, file_type). prefix \<leftarrow> ['''', ''Python_''],
                                       file_type \<leftarrow> [''sesslog'', ''shell'', ''tasks'']]"

definition reconcile_session_files ::
  "io_faults \<Rightarrow> dir \<Rightarrow> string \<Rightarrow> string option \<Rightarrow> string \<Rightarrow> string \<Rightarrow> dir \<times> (string \<times> string) list" where
  "reconcile_session_files io sesslog_dir session_id session_name shell username =
     (if \<not> truthy session_name then (sesslog_dir, [])
      else reconcile_categories io session_id (the session_name) shell username categories sesslog_dir)"

subsection \<open>The session directory\<close>

definition find_directory_by_guid :: "base \<Rightarrow> string \<Rightarrow> item option" where
  "find_directory_by_guid sesslog_base session_id =
     find (\<lambda>it. i_is_dir it \<and> contains session_id (i_name it)) sesslog_base"

text \<open>
  \<open>re.match(rf"^(.+)__{session_id}_", dir_name)\<close>: the group is greedy, so it is the
  longest prefix without a newline that is followed by \<open>__{session_id}_\<close>.
\<close>

definition extract_name_from_directory :: "string \<Rightarrow> string \<Rightarrow> string option" where
  "extract_name_from_directory dir_name session_id =
     (if starts_with ''__'' dir_name then None
      else (case filter (\<lambda>i. newline \<notin> set (take i dir_name)
                               \<and> starts_with (''__'' @ session_id @ ''_'') (drop i dir_name))
                        (rev [1..<Suc (length dir_name)]) of
              [] \<Rightarrow> None
            | i # u \<Rightarrow> Some (take i dir_name)))"

text \<open>
  The pattern \<open>^(\.[\w]+_[\w.]+)_{session_id}_\<close> of the unnamed-to-named rename: both
  groups are greedy and give characters back one at a time, the first group first.  The
  result is the group and the part of the name from the last \<open>_\<close> of the match on.
\<close>

definition unnamed_split :: "string \<Rightarrow> string \<Rightarrow> (string \<times> string) option" where
  "unnamed_split session_id old_name =
     (case old_name of
        [] \<Rightarrow> None
      | c # r \<Rightarrow>
          if c \<noteq> CHR ''.'' then None
          else (case [(l1, l2).
                        l1 \<leftarrow> rev [1..<length (takeWhile is_word r)],
                        r ! l1 = CHR ''_'',
                        l2 \<leftarrow> rev [1..<Suc (length (takeWhile (\<lambda>x. is_word x \<or> x = CHR ''.'')
                                                                (drop (Suc l1) r)))],
                        starts_with (''_'' @ session_id @ ''_'') (drop (Suc l1 + l2) r)] of
                  [] \<Rightarrow> None
                | (l1, l2) # u \<Rightarrow>
                    Some (take (2 + l1 + l2) old_name,
                          drop (2 + l1 + l2 + 1 + length session_id) old_name)))"

definition session_change_name :: "string option \<Rightarrow> string \<Rightarrow> string \<Rightarrow> string \<Rightarrow> string option" where
  "session_change_name old_session_name new_session_name session_id old_name =
     (if truthy old_session_name then
        (if contains (the old_session_name) old_name
         then Some (py_replace (the old_session_name) new_session_name old_name) else None)
      else (case unnamed_split session_id old_name of
              None \<Rightarrow> None
            | Some (prefix, suffix) \<Rightarrow>
                Some (prefix @ ''__'' @ new_session_name @ ''__'' @ session_id @ suffix)))"

text \<open>
  \<open>_rename_files_for_session_change\<close> walks the names listed when the loop starts.
\<close>

fun rename_files_loop ::
  "io_faults \<Rightarrow> string option \<Rightarrow> string \<Rightarrow> string \<Rightarrow> string list \<Rightarrow> dir \<Rightarrow> dir" where
  "rename_files_loop io old_session_name new_session_name session_id [] d = d"
| "rename_files_loop io old_session_name new_session_name session_id (old_name # rest) d =
     (if \<not> list_ex (\<lambda>f. e_name f = old_name \<and> e_is_file f) d
      then rename_files_loop io old_session_name new_session_name session_id rest d
      else (case session_change_name old_session_name new_session_name session_id old_name of
              None \<Rightarrow> rename_files_loop io old_session_name new_session_name session_id rest d
            | Some new_name \<Rightarrow>
                if new_name \<noteq> [] \<and> new_name \<noteq> old_name \<and> new_name \<notin> set (names d)
                   \<and> \<not> rename_fails io old_name new_name
                then rename_files_loop io old_session_name new_session_name session_id rest
                       (rename_entry d old_name new_name)
                else rename_files_loop io old_session_name new_session_name session_id rest d))"

definition rename_files_for_session_change ::
  "io_faults \<Rightarrow> dir \<Rightarrow> string option \<Rightarrow> string \<Rightarrow> string \<Rightarrow> dir" where
  "rename_files_for_session_change io d old_session_name new_session_name session_id =
     rename_files_loop io old_session_name new_session_name session_id (names d) d"

text \<open>
  \<open>reconcile_session_directory\<close> returns the base directory after its changes, the
  name of the session directory to use and the old session name.  Creating the directory
  is not guarded: its exception leaves the function.
\<close>

definition reconcile_session_directory ::
  "io_faults \<Rightarrow> base \<Rightarrow> string \<Rightarrow> string option \<Rightarrow> string \<Rightarrow> exn + (base \<times> string \<times> string option)" where
  "reconcile_session_directory io sesslog_base session_id expected_name username =
     (let expected_dir_name = build_session_directory expected_name session_id username
      in if expected_dir_name \<in> set (map i_name sesslog_base)
         then Inr (sesslog_base, expected_dir_name, None)
         else (case find_directory_by_guid sesslog_base session_id of
                 Some existing_dir \<Rightarrow>
                   (let old_name = extract_name_from_directory (i_name existing_dir) session_id
                    in if rename_fails io (i_name existing_dir) expected_dir_name
                       then Inr (sesslog_base, i_name existing_dir, None)
                       else Inr (map (\<lambda>it. if i_name it = i_name existing_dir
                                            then it\<lparr>i_name := expected_dir_name,
                                                    i_files := (if truthy expected_name
                                                                then rename_files_for_session_change io
                                                                       (i_files it) old_name
                                                                       (the expected_name) session_id
                                                                else i_files it)\<rparr>
                                            else it) sesslog_base,
                                 expected_dir_name, old_name))
               | None \<Rightarrow>
                   if mkdir_fails io expected_dir_name then Inl OSError
                   else Inr (sesslog_base @ [\<lparr>i_name = expected_dir_name, i_is_dir = True, i_files = []\<rparr>],
                             expected_dir_name, None)))"

section \<open>Persisted state, transcripts and the session name\<close>

subsection \<open>Files\<close>

text \<open>
  The files outside the session directories: a map from path to content.  A path in
  \<open>unreadable\<close> exists but opening or decoding it raises; a path in \<open>unwritable\<close>
  cannot be written (\<open>OSError\<close>).  A text file is read with universal newlines:
  \<open>\r\n\<close> and \<open>\r\<close> arrive as \<open>\n\<close>.
\<close>

record world =
  files :: "string \<rightharpoonup> string"
  unreadable :: "string set"
  unwritable :: "string set"

definition carriage_return :: char where
  "carriage_return = CHR 0x0D"

fun universal_newlines :: "string \<Rightarrow> string" where
  "universal_newlines [] = []"
| "universal_newlines (c # cs) =
     (if c = carriage_return then
        newline # (case cs of
                     [] \<Rightarrow> []
                   | d # ds \<Rightarrow> if d = newline then universal_newlines ds else universal_newlines cs)
      else c # universal_newlines cs)"

fun split_lines :: "string \<Rightarrow> string \<Rightarrow> string list" where
  "split_lines cur [] = (if cur = [] then [] else [cur])"
| "split_lines cur (c # cs) =
     (if c = newline then cur # split_lines [] cs else split_lines (cur @ [c]) cs)"

text \<open>The lines of a text, without their terminators.\<close>

definition text_lines :: "string \<Rightarrow> string list" where
  "text_lines t = split_lines [] t"

definition read_text :: "world \<Rightarrow> string \<Rightarrow> exn + string" where
  "read_text w p = (case files w p of
                      None \<Rightarrow> Inl OSError
                    | Some t \<Rightarrow> if p \<in> unreadable w then Inl OSError else Inr (universal_newlines t))"

definition write_text :: "world \<Rightarrow> string \<Rightarrow> string \<Rightarrow> exn + world" where
  "write_text w p t = (if p \<in> unwritable w then Inl OSError else Inr (w\<lparr>files := (files w)(p \<mapsto> t)\<rparr>))"

definition state_dir :: string where
  "state_dir = ''~/.claude/session-states''"

definition state_file :: "string \<Rightarrow> string \<Rightarrow> string" where
  "state_file session_id ext = state_dir @ ''/'' @ session_id @ ext"

text \<open>\<open>str.strip()\<close> and \<open>int(...)\<close> on ASCII text.\<close>

definition is_space :: "char \<Rightarrow> bool" where
  "is_space c = (let n = (of_char c :: nat) in (9 \<le> n \<and> n \<le> 13) \<or> (28 \<le> n \<and> n \<le> 32))"

definition strip :: "string \<Rightarrow> string" where
  "strip s = rev (dropWhile is_space (rev (dropWhile is_space s)))"


definition digits_val :: "string \<Rightarrow> nat" where
  "digits_val ds = foldl (\<lambda>acc c. 10 * acc + digit_val c) 0 ds"


definition py_str :: "int \<Rightarrow> string" where
  "py_str i = (if i < 0 then CHR ''-'' # dec (nat (- i)) else dec (nat i))"

subsection \<open>Run numbers\<close>




subsection \<open>JSON values\<close>

text \<open>
  The values \<open>json.loads\<close> returns.  A float is a mantissa and a decimal exponent; an
  object keeps its members in source order, and a lookup takes the last member with the
  key, as the dictionary built by the parser does.  \<open>json.loads\<close> and
  \<open>normalize_cross_platform_path\<close> are library functions: the functions that call them
  take them from a \<open>lib\<close> record, where \<open>normalize\<close> gives the normalised path as
  text, \<open>parts_of\<close> its \<open>parts\<close>, and \<open>now_text\<close> is the text of
  \<open>datetime.now()\<close>.
\<close>

datatype json =
    JNull
  | JBool bool
  | JInt int
  | JFloat int int
  | JStr string
  | JArr "json list"
  | JObj "(string \<times> json) list"

record lib =
  loads :: "string \<Rightarrow> exn + json"
  normalize :: "string \<Rightarrow> string"
  parts_of :: "string \<Rightarrow> string list"
  now_text :: string

fun json_truthy :: "json \<Rightarrow> bool" where
  "json_truthy JNull = False"
| "json_truthy (JBool b) = b"
| "json_truthy (JInt i) = (i \<noteq> 0)"
| "json_truthy (JFloat m e) = (m \<noteq> 0)"
| "json_truthy (JStr s) = (s \<noteq> [])"
| "json_truthy (JArr xs) = (xs \<noteq> [])"
| "json_truthy (JObj kvs) = (kvs \<noteq> [])"

text \<open>\<open>d.get(k)\<close> on a dictionary: \<open>None\<close> (that is \<open>JNull\<close>) for a missing key.\<close>

definition dict_get :: "(string \<times> json) list \<Rightarrow> string \<Rightarrow> json" where
  "dict_get kvs k = (case map_of (rev kvs) k of None \<Rightarrow> JNull | Some v \<Rightarrow> v)"

subsection \<open>Paths\<close>

definition path_parent :: "string \<Rightarrow> string" where
  "path_parent p =
     (let d = rev (dropWhile (\<lambda>c. c \<noteq> CHR ''/'') (rev p))
      in if d = [] then ''.'' else if d = ''/'' then ''/'' else butlast d)"

definition path_join :: "string \<Rightarrow> string \<Rightarrow> string" where
  "path_join d n = (if d = ''.'' then n else if d = ''/'' then ''/'' @ n else d @ ''/'' @ n)"

subsection \<open>The session name\<close>

definition is_title_line :: "string \<Rightarrow> bool" where
  "is_title_line line =
     (contains ([CHR 0x22] @ ''type'' @ [CHR 0x22] @ '':'' @ [CHR 0x22] @ ''custom-title'' @ [CHR 0x22]) line
      \<or> contains ([CHR 0x22] @ ''type'' @ [CHR 0x22] @ '': '' @ [CHR 0x22] @ ''custom-title'' @ [CHR 0x22]) line)"

text \<open>
  The loop over the transcript's lines.  A line that does not parse is skipped; any
  other exception (the parsed line is not an object) leaves the loop through the outer
  handler, with the name found so far.
\<close>

fun scan_transcript :: "lib \<Rightarrow> json \<Rightarrow> string list \<Rightarrow> json" where
  "scan_transcript l session_name [] = session_name"
| "scan_transcript l session_name (line # rest) =
     (if is_title_line line then
        (case loads l line of
           Inl e \<Rightarrow> if e = JSONDecodeError then scan_transcript l session_name rest else session_name
         | Inr entry \<Rightarrow>
             (case entry of
                JObj kvs \<Rightarrow>
                  if json_truthy (dict_get kvs ''customTitle'')
                  then scan_transcript l (dict_get kvs ''customTitle'') rest
                  else scan_transcript l session_name rest
              | _ \<Rightarrow> session_name))
      else scan_transcript l session_name rest)"

text \<open>
  The loop over the entries of the sessions index: \<open>Some v\<close> when an entry for the
  session assigns \<open>v\<close>, \<open>None\<close> when no entry matches or an entry is not an object (the
  exception is swallowed and nothing is assigned).
\<close>

fun index_entries :: "string \<Rightarrow> json list \<Rightarrow> json option" where
  "index_entries session_id [] = None"
| "index_entries session_id (entry # rest) =
     (case entry of
        JObj kvs \<Rightarrow>
          if dict_get kvs ''sessionId'' = JStr session_id then Some (dict_get kvs ''customTitle'')
          else index_entries session_id rest
      | _ \<Rightarrow> None)"

definition index_lookup :: "lib \<Rightarrow> world \<Rightarrow> string \<Rightarrow> string \<Rightarrow> json option" where
  "index_lookup l w sessions_index session_id =
     (case read_text w sessions_index of
        Inl e \<Rightarrow> None
      | Inr t \<Rightarrow>
          (case loads l t of
             Inl e \<Rightarrow> None
           | Inr index_data \<Rightarrow>
               (case index_data of
                  JObj kvs \<Rightarrow>
                    (if map_of kvs ''entries'' = None then None
                     else (case dict_get kvs ''entries'' of
                             JArr entries \<Rightarrow> index_entries session_id entries
                           | _ \<Rightarrow> None))
                | _ \<Rightarrow> None)))"

definition get_session_name :: "lib \<Rightarrow> world \<Rightarrow> string \<Rightarrow> string \<Rightarrow> json \<times> world" where
  "get_session_name l w session_id transcript_path =
     (let cache_file = state_file session_id ''.name-cache'';
          name1 =
            (if transcript_path \<noteq> [] then
               (let transcript_file = normalize l transcript_path;
                    n1 = (case read_text w transcript_file of
                            Inl e \<Rightarrow> JNull
                          | Inr t \<Rightarrow> scan_transcript l JNull (text_lines t))
                in if \<not> json_truthy n1 then
                     (case index_lookup l w (path_join (path_parent transcript_file) ''sessions-index.json'')
                             session_id of
                        None \<Rightarrow> n1
                      | Some v \<Rightarrow> v)
                   else n1)
             else JNull);
          name2 =
            (if \<not> json_truthy name1 then
               (case read_text w cache_file of
                  Inl e \<Rightarrow> name1
                | Inr t \<Rightarrow> if strip t \<noteq> [] then JStr (strip t) else name1)
             else name1)
      in if json_truthy name2 then
           (case name2 of
              JStr s \<Rightarrow> (case write_text w cache_file s of Inl e \<Rightarrow> (name2, w) | Inr w' \<Rightarrow> (name2, w'))
            | _ \<Rightarrow> (name2, w))
         else (name2, w))"

section \<open>The atomic append writer\<close>

subsection \<open>Time stamps\<close>

text \<open>
  A naive \<open>datetime\<close>.  The difference of two of them is exact in microseconds, and
  \<open>total_seconds() >= gap_seconds\<close> compares it with a whole number of seconds, so the
  comparison is made on integers.
\<close>

record datetime =
  dt_year :: int
  dt_month :: int
  dt_day :: int
  dt_hour :: int
  dt_minute :: int
  dt_second :: int
  dt_microsecond :: int

definition is_leap :: "int \<Rightarrow> bool" where
  "is_leap y = (y mod 4 = 0 \<and> (y mod 100 \<noteq> 0 \<or> y mod 400 = 0))"

definition days_in_month :: "int \<Rightarrow> int \<Rightarrow> int" where
  "days_in_month y m =
     (if m = 2 then (if is_leap y then 29 else 28)
      else if m = 4 \<or> m = 6 \<or> m = 9 \<or> m = 11 then 30 else 31)"

definition days_before_month :: "int \<Rightarrow> int \<Rightarrow> int" where
  "days_before_month y m =
     [0, 31, 59, 90, 120, 151, 181, 212, 243, 273, 304, 334] ! nat (m - 1)
     + (if m > 2 \<and> is_leap y then 1 else 0)"

definition toordinal :: "datetime \<Rightarrow> int" where
  "toordinal d =
     (let y = dt_year d - 1
      in y * 365 + y div 4 - y div 100 + y div 400 + days_before_month (dt_year d) (dt_month d) + dt_day d)"

definition microseconds :: "datetime \<Rightarrow> int" where
  "microseconds d =
     ((toordinal d * 86400 + dt_hour d * 3600 + dt_minute d * 60 + dt_second d) * 1000000
      + dt_microsecond d)"

definition valid_date :: "int \<Rightarrow> int \<Rightarrow> int \<Rightarrow> bool" where
  "valid_date y m d = (1 \<le> y \<and> y \<le> 9999 \<and> 1 \<le> m \<and> m \<le> 12 \<and> 1 \<le> d \<and> d \<le> days_in_month y m)"

text \<open>
  \<open>datetime.strptime\<close> for the two formats of the source, on ASCII text.  A field of
  one or two digits is read as the library's regular expression reads it (\<open>%m\<close>:
  \<open>1[0-2]|0[1-9]|[1-9]\<close>, \<open>%d\<close>: \<open>3[0-1]|[1-2]\d|0[1-9]|[1-9]| [1-9]\<close>, \<open>%H\<close>:
  \<open>2[0-3]|[0-1]\d|\d\<close>, \<open>%M\<close>: \<open>[0-5]\d|\d\<close>, \<open>%S\<close>: \<open>6[0-1]|[0-5]\d|\d\<close>), a
  blank in the format stands for one or more blanks, the whole text must be consumed, and
  the fields must form a date and a time of day.
\<close>

definition field12 :: "nat \<Rightarrow> nat \<Rightarrow> string \<Rightarrow> int option" where
  "field12 lo hi s =
     (if (length s = 1 \<or> length s = 2) \<and> list_all is_digit s
         \<and> lo \<le> digits_val s \<and> digits_val s \<le> hi
      then Some (int (digits_val s)) else None)"

definition day_field :: "string \<Rightarrow> int option" where
  "day_field s = (case s of
                    [a, b] \<Rightarrow> if a = CHR '' '' then (if is_digit b then field12 1 9 [b] else None)
                               else field12 1 31 s
                  | _ \<Rightarrow> field12 1 31 s)"

definition split_at :: "char \<Rightarrow> string \<Rightarrow> (string \<times> string) option" where
  "split_at c s = (if c \<in> set s
                   then Some (takeWhile (\<lambda>x. x \<noteq> c) s, tl (dropWhile (\<lambda>x. x \<noteq> c) s))
                   else None)"

definition parse_ymd :: "string \<Rightarrow> string \<Rightarrow> string \<Rightarrow> (int \<times> int \<times> int) option" where
  "parse_ymd ys ms ds =
     (if length ys = 4 \<and> list_all is_digit ys then
        (case (field12 1 12 ms, day_field ds) of
           (Some m, Some d) \<Rightarrow>
             if valid_date (int (digits_val ys)) m d then Some (int (digits_val ys), m, d) else None
         | _ \<Rightarrow> None)
      else None)"

definition strptime_date :: "string \<Rightarrow> datetime option" where
  "strptime_date s =
     (case split_at (CHR ''-'') s of
        None \<Rightarrow> None
      | Some (ys, r) \<Rightarrow>
          (case split_at (CHR ''-'') r of
             None \<Rightarrow> None
           | Some (ms, ds) \<Rightarrow>
               (case parse_ymd ys ms ds of
                  None \<Rightarrow> None
                | Some (y, m, d) \<Rightarrow>
                    Some \<lparr>dt_year = y, dt_month = m, dt_day = d, dt_hour = 0, dt_minute = 0,
                          dt_second = 0, dt_microsecond = 0\<rparr>)))"

definition parse_hms :: "string \<Rightarrow> (int \<times> int \<times> int) option" where
  "parse_hms s =
     (case split_at (CHR '':'') s of
        None \<Rightarrow> None
      | Some (hs, r) \<Rightarrow>
          (case split_at (CHR '':'') r of
             None \<Rightarrow> None
           | Some (mins, ss) \<Rightarrow>
               (case (field12 0 23 hs, field12 0 59 mins, field12 0 59 ss) of
                  (Some h, Some mi, Some sec) \<Rightarrow> Some (h, mi, sec)
                | _ \<Rightarrow> None)))"

definition strptime_full :: "string \<Rightarrow> datetime option" where
  "strptime_full s =
     (case split_at (CHR ''-'') s of
        None \<Rightarrow> None
      | Some (ys, r) \<Rightarrow>
          (case split_at (CHR ''-'') r of
             None \<Rightarrow> None
           | Some (ms, r2) \<Rightarrow>
               (let ds = (case r2 of
                            [] \<Rightarrow> []
                          | a # r3 \<Rightarrow> if a = CHR '' '' \<and> r3 \<noteq> [] \<and> is_digit (hd r3) then [a, hd r3]
                                      else takeWhile is_digit r2);
                    r4 = drop (length ds) r2
                in if r4 = [] \<or> \<not> is_space (hd r4) then None
                   else (case (parse_ymd ys ms ds, parse_hms (dropWhile is_space r4)) of
                           (Some (y, m, d), Some (h, mi, sec)) \<Rightarrow>
                             Some \<lparr>dt_year = y, dt_month = m, dt_day = d, dt_hour = h,
                                   dt_minute = mi, dt_second = sec, dt_microsecond = 0\<rparr>
                         | _ \<Rightarrow> None))))"

text \<open>\<open>re.search(r"\[\[([^\]]+)\]\]", last_line)\<close>: the leftmost match.\<close>

definition stamp_here :: "string \<Rightarrow> string option" where
  "stamp_here s =
     (if starts_with ''[['' s then
        (let run = takeWhile (\<lambda>c. c \<noteq> CHR '']'') (drop 2 s)
         in if run \<noteq> [] \<and> starts_with '']]'' (drop (2 + length run) s) then Some run else None)
      else None)"

fun find_stamp :: "string \<Rightarrow> string option" where
  "find_stamp [] = None"
| "find_stamp (c # cs) = (case stamp_here (c # cs) of Some t \<Rightarrow> Some t | None \<Rightarrow> find_stamp cs)"

definition check_time_gap :: "world \<Rightarrow> string \<Rightarrow> string \<Rightarrow> datetime \<Rightarrow> int \<Rightarrow> bool" where
  "check_time_gap w file_path datetime_mode event_time gap_seconds =
     (if datetime_mode = ''none'' \<or> files w file_path = None then False
      else (case read_text w file_path of
              Inl e \<Rightarrow> False
            | Inr t \<Rightarrow>
                (let lines = text_lines t
                 in if lines = [] then False
                    else (case find_stamp (last lines) of
                            None \<Rightarrow> False
                          | Some last_timestamp_str \<Rightarrow>
                              (case (case strptime_full last_timestamp_str of
                                       Some lt \<Rightarrow> Some lt
                                     | None \<Rightarrow> strptime_date last_timestamp_str) of
                                 None \<Rightarrow> False
                               | Some last_time \<Rightarrow>
                                   microseconds event_time - microseconds last_time
                                     \<ge> gap_seconds * 1000000)))))"

subsection \<open>Appending\<close>

text \<open>
  The steps of \<open>atomic_append\<close> that can raise, as an oracle: creating the parent
  directory, \<open>mkstemp\<close> (with the random part of the name it chose), writing the
  temporary file, the final move, and opening or writing the overflow file.  The move is
  a rename inside one directory: it replaces the target at once or not at all.
\<close>

record append_faults =
  parent_mkdir_fails :: bool
  mkstemp_fails :: bool
  mkstemp_random :: string
  temp_write_fails :: bool
  move_fails :: bool
  overflow_write_fails :: bool

definition strip_nul :: "string \<Rightarrow> string" where
  "strip_nul s = filter (\<lambda>c. c \<noteq> CHR 0x00) s"

definition overflow_path :: "string \<Rightarrow> int \<Rightarrow> string" where
  "overflow_path file_path n = file_path @ ''.overflow.'' @ py_str n"

text \<open>
  The search for the overflow file: the first number from \<open>n\<close> up to 100 whose file
  is absent or smaller than 1,000,000 bytes; \<open>None\<close> when the entry is dropped.
\<close>

function overflow_number :: "world \<Rightarrow> string \<Rightarrow> int \<Rightarrow> int option" where
  "overflow_number w file_path n =
     (case files w (overflow_path file_path n) of
        None \<Rightarrow> Some n
      | Some t \<Rightarrow>
          if int (length t) < 1000000 then Some n
          else if n + 1 > 100 then None
          else overflow_number w file_path (n + 1))"
  by pat_completeness auto
termination
  by (relation "measure (\<lambda>(w, file_path, n). nat (101 - n))") auto

declare overflow_number.simps [simp del]

definition write_to_overflow :: "append_faults \<Rightarrow> world \<Rightarrow> string \<Rightarrow> string \<Rightarrow> bool \<Rightarrow> world" where
  "write_to_overflow af w file_path content add_gap =
     (case overflow_number w file_path 1 of
        None \<Rightarrow> w
      | Some n \<Rightarrow>
          if overflow_write_fails af \<or> overflow_path file_path n \<in> unwritable w then w
          else w\<lparr>files := (files w)(overflow_path file_path n \<mapsto>
                   (case files w (overflow_path file_path n) of None \<Rightarrow> [] | Some t \<Rightarrow> t)
                   @ (if add_gap then [newline] else []) @ content @ [newline])\<rparr>)"

text \<open>
  \<open>atomic_append\<close>.  The temporary file exists only between \<open>mkstemp\<close> and the
  \<open>finally\<close> clause, which removes it, so the world returned never holds it.  Creating
  the parent directory stands before the \<open>try\<close>: its exception leaves the function.
\<close>

definition atomic_append :: "append_faults \<Rightarrow> world \<Rightarrow> string \<Rightarrow> string \<Rightarrow> bool \<Rightarrow> exn + world" where
  "atomic_append af w file_path content0 add_gap =
     (if parent_mkdir_fails af then Inl OSError
      else
        (let content = strip_nul content0;
             temp_file = file_path @ ''.'' @ mkstemp_random af @ ''.tmp''
         in if mkstemp_fails af \<or> files w temp_file \<noteq> None
            then Inr (write_to_overflow af w file_path content add_gap)
            else
              (case (case files w file_path of
                       None \<Rightarrow> Inr []
                     | Some t \<Rightarrow> (case read_text w file_path of
                                    Inl e \<Rightarrow> Inl e
                                  | Inr existing \<Rightarrow> Inr (strip_nul existing))) of
                 Inl e \<Rightarrow> Inr (write_to_overflow af w file_path content add_gap)
               | Inr existing \<Rightarrow>
                   if temp_write_fails af \<or> move_fails af
                   then Inr (write_to_overflow af w file_path content add_gap)
                   else Inr (w\<lparr>files := (files w)(file_path \<mapsto>
                               existing @ (if add_gap then [newline] else []) @ content @ [newline])\<rparr>))))"

subsection \<open>Session markers\<close>

definition bar80 :: string where
  "bar80 = concat (replicate 80 [CHR 0xE2, CHR 0x95, CHR 0x90])"


definition pad_int :: "nat \<Rightarrow> int \<Rightarrow> string" where
  "pad_int width i = zero_pad width (py_str i)"

definition strftime_full :: "datetime \<Rightarrow> string" where
  "strftime_full d =
     pad_int 4 (dt_year d) @ ''-'' @ pad_int 2 (dt_month d) @ ''-'' @ pad_int 2 (dt_day d) @ '' ''
     @ pad_int 2 (dt_hour d) @ '':'' @ pad_int 2 (dt_minute d) @ '':'' @ pad_int 2 (dt_second d)"



section \<open>Naming a session after its working directory\<close>

definition GENERIC_FOLDER_NAMES :: "string list" where
  "GENERIC_FOLDER_NAMES =
     [''home'', ''user'', ''users'', ''code'', ''projects'', ''project'', ''work'',
      ''dev'', ''development'', ''src'', ''source'', ''app'', ''apps'', ''local'',
      ''current'', ''main'', ''master'', ''opt'', ''var'', ''tmp'', ''temp'',
      ''desktop'', ''documents'', ''downloads'', ''repos'', ''repository'', ''github'', ''gitlab'',
      ''bitbucket'', ''workspace'', ''workspaces'']"

definition DRIVE_LETTERS :: "string list" where
  "DRIVE_LETTERS = [''c'', ''d'', ''e'', ''f'', ''g'', ''h'', ''z'']"

definition lower_char :: "char \<Rightarrow> char" where
  "lower_char c = (if 65 \<le> (of_char c :: nat) \<and> (of_char c :: nat) \<le> 90
                   then char_of ((of_char c :: nat) + 32) else c)"

definition lower :: "string \<Rightarrow> string" where
  "lower s = map lower_char s"

fun collapse_hyphens :: "string \<Rightarrow> string" where
  "collapse_hyphens (a # b # cs) =
     (if a = CHR ''-'' \<and> b = CHR ''-'' then collapse_hyphens (b # cs)
      else a # collapse_hyphens (b # cs))"
| "collapse_hyphens cs = cs"

definition strip_chars :: "string \<Rightarrow> string \<Rightarrow> string" where
  "strip_chars cs s = rev (dropWhile (\<lambda>c. c \<in> set cs) (rev (dropWhile (\<lambda>c. c \<in> set cs) s)))"

definition rstrip_chars :: "string \<Rightarrow> string \<Rightarrow> string" where
  "rstrip_chars cs s = rev (dropWhile (\<lambda>c. c \<in> set cs) (rev s))"

definition sanitize_folder_name :: "string \<Rightarrow> string" where
  "sanitize_folder_name name =
     strip_chars ''-''
       (collapse_hyphens
          (map (\<lambda>c. if is_word c \<or> c = CHR ''-'' then c else CHR ''-'') (lower name)))"

text \<open>\<open>s.rsplit("--", 1)[0]\<close>: the text before the last \<open>--\<close>, or all of it.\<close>

definition before_last_sep :: "string \<Rightarrow> string" where
  "before_last_sep s =
     (case filter (\<lambda>k. starts_with ''--'' (drop k s)) (rev [0..<length s]) of
        [] \<Rightarrow> s
      | k # u \<Rightarrow> take k s)"

definition join_sep :: "string list \<Rightarrow> string" where
  "join_sep xs = (case xs of [] \<Rightarrow> [] | x # r \<Rightarrow> x @ concat (map (\<lambda>y. ''--'' @ y) r))"

text \<open>
  One entry of the list \<open>parts\<close>: the sanitized name, the raw name in lower case, and
  whether the sanitized name is a drive letter.
\<close>

definition part_info :: "string \<Rightarrow> string \<times> string \<times> bool" where
  "part_info part =
     (let raw = rstrip_chars ('':/'' @ [CHR 0x5C]) part;
          sanitized = sanitize_folder_name raw
      in (sanitized, lower raw, sanitized \<in> set DRIVE_LETTERS))"

definition usable_parts :: "string list \<Rightarrow> (string \<times> string \<times> bool) list" where
  "usable_parts all_parts =
     filter (\<lambda>p. fst p \<noteq> []) (map part_info (drop (length all_parts - 4) all_parts))"

definition is_specific :: "string \<times> string \<times> bool \<Rightarrow> bool" where
  "is_specific p = (fst (snd p) \<notin> set GENERIC_FOLDER_NAMES \<and> \<not> snd (snd p))"

definition start_index :: "(string \<times> string \<times> bool) list \<Rightarrow> nat" where
  "start_index parts =
     (case filter (\<lambda>i. is_specific (parts ! i)) (rev [0..<length parts - 1]) of
        [] \<Rightarrow> 0
      | i # u \<Rightarrow> i)"

definition derive_session_name_from_cwd :: "lib \<Rightarrow> string \<Rightarrow> string option" where
  "derive_session_name_from_cwd l cwd =
     (if cwd = [] then None
      else
        (let parts = usable_parts (parts_of l cwd)
         in if parts = [] then None
            else if is_specific (last parts) \<and> length (fst (last parts)) \<ge> 3
            then Some (take 50 (fst (last parts)))
            else
              (let path_parts = filter (\<lambda>x. length x \<ge> 1) (map fst (drop (start_index parts) parts))
               in if path_parts = [] then None
                  else if length (join_sep path_parts) > 50
                  then Some (before_last_sep (take 50 (join_sep path_parts)))
                  else Some (join_sep path_parts))))"

text \<open>
  Creating a directory that is already there succeeds; it raises when the path is a
  regular file or cannot be written.
\<close>

definition mkdir_p :: "world \<Rightarrow> string \<Rightarrow> exn + world" where
  "mkdir_p w d = (if files w d \<noteq> None \<or> d \<in> unwritable w then Inl OSError else Inr w)"

definition apply_auto_name_on_session_start ::
  "lib \<Rightarrow> world \<Rightarrow> string \<Rightarrow> string \<Rightarrow> string \<Rightarrow> string \<Rightarrow> exn + (string option \<times> world)" where
  "apply_auto_name_on_session_start l w session_id transcript_path cwd hook_event_name =
     (if hook_event_name \<noteq> ''SessionStart'' then Inr (None, w)
      else
        (let (existing_name, w1) = get_session_name l w session_id transcript_path
         in if json_truthy existing_name then Inr (None, w1)
            else (case derive_session_name_from_cwd l cwd of
                    None \<Rightarrow> Inr (None, w1)
                  | Some auto_name \<Rightarrow>
                      if auto_name = [] then Inr (None, w1)
                      else (case mkdir_p w1 state_dir of
                              Inl e \<Rightarrow> Inl e
                            | Inr w2 \<Rightarrow>
                                (case write_text w2 (state_file session_id ''.name-cache'') auto_name of
                                   Inl e \<Rightarrow> Inr (None, w2)
                                 | Inr w3 \<Rightarrow> Inr (Some auto_name, w3))))))"

section \<open>The entry point\<close>

text \<open>
  Standard input is a sequence of bytes; \<open>decode('utf-8')\<close> succeeds on well-formed
  UTF-8 only (Unicode, table 3-7) and the text keeps its bytes.
\<close>

definition cont_byte :: "nat \<Rightarrow> bool" where
  "cont_byte b = (128 \<le> b \<and> b \<le> 191)"

fun utf8_valid :: "nat list \<Rightarrow> bool" where
  "utf8_valid [] = True"
| "utf8_valid (b # bs) =
     (if b < 128 then utf8_valid bs
      else if 194 \<le> b \<and> b \<le> 223 then
        (case bs of c1 # r \<Rightarrow> cont_byte c1 \<and> utf8_valid r | _ \<Rightarrow> False)
      else if 224 \<le> b \<and> b \<le> 239 then
        (case bs of
           c1 # c2 # r \<Rightarrow>
             cont_byte c1 \<and> cont_byte c2 \<and> (if b = 224 then 160 \<le> c1 else True)
             \<and> (if b = 237 then c1 \<le> 159 else True) \<and> utf8_valid r
         | _ \<Rightarrow> False)
      else if 240 \<le> b \<and> b \<le> 244 then
        (case bs of
           c1 # c2 # c3 # r \<Rightarrow>
             cont_byte c1 \<and> cont_byte c2 \<and> cont_byte c3 \<and> (if b = 240 then 144 \<le> c1 else True)
             \<and> (if b = 244 then c1 \<le> 143 else True) \<and> utf8_valid r
         | _ \<Rightarrow> False)
      else False)"

definition utf8_decode :: "string \<Rightarrow> string option" where
  "utf8_decode bs = (if utf8_valid (map of_char bs) then Some bs else None)"

text \<open>
  The state of a run: the state files, the base directory of the session logs, and
  everything else the called functions read or change (environment variables,
  configuration files, the objects built on the way).  \<open>debug_log\<close> appends a line to
  its own log and swallows every failure; the message texts are shortened to their fixed
  part.
\<close>

record 'x system =
  sys_world :: world
  sys_base :: base
  sys_more :: 'x

datatype exit_status = Success | Uncaught exn

definition DEBUG_LOG :: string where
  "DEBUG_LOG = ''~/.claude/logs/hook-debug.log''"

definition debug_log :: "lib \<Rightarrow> string \<Rightarrow> 'x system \<Rightarrow> 'x system" where
  "debug_log l message s =
     (if DEBUG_LOG \<in> unwritable (sys_world s) then s
      else s\<lparr>sys_world := (sys_world s)\<lparr>files := (files (sys_world s))(DEBUG_LOG \<mapsto>
                (case files (sys_world s) DEBUG_LOG of None \<Rightarrow> [] | Some t \<Rightarrow> t)
                @ now_text l @ '': '' @ message @ [newline])\<rparr>\<rparr>)"

text \<open>
  The functions \<open>main\<close> calls after parsing, in the order it calls them.  Each takes the
  parsed input and the state, and returns the state it leaves behind together with its
  result or the exception it raised.
\<close>

record 'x ops =
  op_apply_auto_name :: "json \<Rightarrow> 'x system \<Rightarrow> (exn + unit) \<times> 'x system"
  op_build_session_context :: "json \<Rightarrow> 'x system \<Rightarrow> (exn + unit) \<times> 'x system"
  op_load_configuration :: "json \<Rightarrow> 'x system \<Rightarrow> (exn + unit) \<times> 'x system"
  op_mkdir_sesslog_base :: "json \<Rightarrow> 'x system \<Rightarrow> (exn + unit) \<times> 'x system"
  op_reconcile_session_directory :: "json \<Rightarrow> 'x system \<Rightarrow> (exn + unit) \<times> 'x system"
  op_write_session_state :: "json \<Rightarrow> 'x system \<Rightarrow> (exn + unit) \<times> 'x system"
  op_ensure_transcript_symlink :: "json \<Rightarrow> 'x system \<Rightarrow> (exn + unit) \<times> 'x system"
  op_should_log_tool :: "json \<Rightarrow> 'x system \<Rightarrow> (exn + bool) \<times> 'x system"
  op_get_command_content :: "json \<Rightarrow> 'x system \<Rightarrow> (exn + unit) \<times> 'x system"
  op_generate_entry :: "json \<Rightarrow> 'x system \<Rightarrow> (exn + unit) \<times> 'x system"
  op_get_task_content :: "json \<Rightarrow> 'x system \<Rightarrow> (exn + unit) \<times> 'x system"
  op_session_logger :: "json \<Rightarrow> 'x system \<Rightarrow> (exn + unit) \<times> 'x system"
  op_log_entry :: "json \<Rightarrow> 'x system \<Rightarrow> (exn + unit) \<times> 'x system"
  op_detect_and_log_failure :: "json \<Rightarrow> 'x system \<Rightarrow> (exn + unit) \<times> 'x system"

text \<open>
  A run ends with the lines printed on standard output, the exit status and the final
  state.  An exception that nothing catches ends the run at once: nothing has been
  printed, because every \<open>print\<close> of \<open>main\<close> is followed by its \<open>return\<close>.
\<close>

type_synonym 'x run = "string list \<times> exit_status \<times> 'x system"

definition and_then ::
  "('x system \<Rightarrow> (exn + 'a) \<times> 'x system) \<Rightarrow> ('a \<Rightarrow> 'x system \<Rightarrow> 'x run) \<Rightarrow> 'x system \<Rightarrow> 'x run" where
  "and_then step rest s =
     (case step s of
        (Inl e, s') \<Rightarrow> ([], Uncaught e, s')
      | (Inr a, s') \<Rightarrow> rest a s')"

definition ack :: string where
  "ack = ''{'' @ [CHR 0x22] @ ''continue'' @ [CHR 0x22] @ '': true}''"

definition is_tool_hook :: "json \<Rightarrow> bool" where
  "is_tool_hook hook_event_name =
     (hook_event_name = JStr ''PostToolUse'' \<or> hook_event_name = JStr ''PreToolUse''
      \<or> hook_event_name = JStr ''PostToolUseFailure'')"

definition main_parsed :: "lib \<Rightarrow> 'x ops \<Rightarrow> json \<Rightarrow> 'x system \<Rightarrow> 'x run" where
  "main_parsed l ops json_input s0 =
     (case json_input of
        JObj kvs \<Rightarrow>
          (let hook_event_name = (case map_of (rev kvs) ''hook_event_name'' of
                                    None \<Rightarrow> JStr ''PostToolUse''
                                  | Some v \<Rightarrow> v)
           in and_then (op_apply_auto_name ops json_input) (\<lambda>u.
              and_then (op_build_session_context ops json_input) (\<lambda>u.
              and_then (op_load_configuration ops json_input) (\<lambda>u.
              and_then (op_mkdir_sesslog_base ops json_input) (\<lambda>u.
              and_then (op_reconcile_session_directory ops json_input) (\<lambda>u.
              and_then (op_write_session_state ops json_input) (\<lambda>u.
              and_then (op_ensure_transcript_symlink ops json_input) (\<lambda>u s7.
                if \<not> is_tool_hook hook_event_name
                then ([ack], Success, debug_log l ''Non-tool hook, state updated, exiting'' s7)
                else
                  and_then (op_should_log_tool ops json_input) (\<lambda>wanted s8.
                    if \<not> wanted then ([ack], Success, s8)
                    else
                      and_then (op_get_command_content ops json_input) (\<lambda>u.
                      and_then (op_generate_entry ops json_input) (\<lambda>u.
                      and_then (op_get_task_content ops json_input) (\<lambda>u.
                      and_then (op_session_logger ops json_input) (\<lambda>u.
                      and_then (op_log_entry ops json_input) (\<lambda>u.
                      and_then (op_detect_and_log_failure ops json_input) (\<lambda>u s14.
                        ([ack], Success, debug_log l ''Logged'' s14))))))) s8) s7)))))))
             (debug_log l ''Hook event'' (debug_log l ''JSON keys'' s0)))
      | _ \<Rightarrow> ([], Uncaught AttributeError, s0))"

definition main :: "lib \<Rightarrow> 'x ops \<Rightarrow> string \<Rightarrow> 'x system \<Rightarrow> 'x run" where
  "main l ops stdin s0 =
     (let s2 = debug_log l ''JSON keys will be logged after parse'' (debug_log l ''Hook started (Python)'' s0)
      in case utf8_decode stdin of
           None \<Rightarrow> ([], Uncaught UnicodeDecodeError, s2)
         | Some raw_input \<Rightarrow>
             (case loads l raw_input of
                Inl e \<Rightarrow> if e = JSONDecodeError
                         then ([ack], Success, debug_log l ''JSON parse error'' s2)
                         else ([], Uncaught e, s2)
              | Inr json_input \<Rightarrow> main_parsed l ops json_input (debug_log l ''JSON_INPUT length'' s2)))"

section \<open>Notions used to state the properties\<close>


text \<open>
  A line of text holds neither a line feed nor a carriage return.  A clean log holds no
  null byte and no carriage return and ends, when it is not empty, with a line feed:
  every text this writer appends ends so.  \<open>append_step_fails\<close> says that one of the
  guarded steps of \<open>atomic_append\<close> raises.
\<close>

definition plain_line :: "string \<Rightarrow> bool" where
  "plain_line s = (newline \<notin> set s \<and> carriage_return \<notin> set s)"




section \<open>Sample inputs\<close>

definition af_ok :: append_faults where
  "af_ok = \<lparr>parent_mkdir_fails = False, mkstemp_fails = False, mkstemp_random = ''x1'',
            temp_write_fails = False, move_fails = False, overflow_write_fails = False\<rparr>"







section \<open>Writing an entry\<close>

text \<open>
  \<open>SessionLogger.log_entry\<close>, with the three log paths as arguments: both gaps are
  computed before anything is written, with the threshold of 1800 seconds.
\<close>

definition strftime_date :: "datetime \<Rightarrow> string" where
  "strftime_date d = pad_int 4 (dt_year d) @ ''-'' @ pad_int 2 (dt_month d) @ ''-'' @ pad_int 2 (dt_day d)"

definition format_datetime :: "string \<Rightarrow> datetime \<Rightarrow> string" where
  "format_datetime mode ts =
     (if mode = ''date'' then ''[['' @ strftime_date ts @ '']] ''
      else if mode = ''full'' then ''[['' @ strftime_full ts @ '']] ''
      else [])"

definition log_entry ::
  "append_faults \<Rightarrow> world \<Rightarrow> string \<Rightarrow> string \<Rightarrow> string \<Rightarrow> string \<Rightarrow> string \<Rightarrow> string
     \<Rightarrow> string option \<Rightarrow> datetime \<Rightarrow> exn + world" where
  "log_entry af w shell_log_path unified_log_path task_log_path datetime_mode entry tool_category
     task_content ts =
     (let shell_gap = check_time_gap w shell_log_path datetime_mode ts 1800;
          unified_gap = check_time_gap w unified_log_path datetime_mode ts 1800
      in case atomic_append af w shell_log_path entry shell_gap of
           Inl e \<Rightarrow> Inl e
         | Inr w1 \<Rightarrow>
             (case atomic_append af w1 unified_log_path entry unified_gap of
                Inl e \<Rightarrow> Inl e
              | Inr w2 \<Rightarrow>
                  if tool_category = ''task'' \<and> truthy task_content
                  then atomic_append af w2 task_log_path
                         (format_datetime datetime_mode ts @ ''{'' @ the task_content @ '' }'') False
                  else Inr w2))"

section \<open>Further notions and sample inputs\<close>

text \<open>
  The time stamp a line carries: the first \<open>[[...]]\<close> of the line, read in the
  date-and-time format or else in the date format.  \<open>file_after\<close> is the content of a
  file after an operation that may have raised.
\<close>

definition line_stamp :: "string \<Rightarrow> datetime option" where
  "line_stamp line =
     (case find_stamp line of
        None \<Rightarrow> None
      | Some s \<Rightarrow> (case strptime_full s of Some d \<Rightarrow> Some d | None \<Rightarrow> strptime_date s))"

definition file_after :: "exn + world \<Rightarrow> string \<Rightarrow> string option" where
  "file_after r p = (case r of Inl e \<Rightarrow> None | Inr w \<Rightarrow> files w p)"

definition at_time :: "int \<Rightarrow> int \<Rightarrow> int \<Rightarrow> datetime" where
  "at_time h m s = \<lparr>dt_year = 2024, dt_month = 3, dt_day = 1, dt_hour = h, dt_minute = m, dt_second = s,
                    dt_microsecond = 0\<rparr>"

definition w_gap :: world where
  "w_gap = \<lparr>files = [''shell.log'' \<mapsto> ''[[2024-03-01 12:00:00]] {Bash: ls }'' @ [newline],
                     ''sess.log'' \<mapsto> ''[[2024-03-01]] {Bash: ls }'' @ [newline]],
            unreadable = {}, unwritable = {}\<rparr>"

definition shell_text :: string where
  "shell_text = ''[[2024-03-01 12:00:00]] {Bash: ls }'' @ [newline]"

definition entry_text :: "int \<Rightarrow> int \<Rightarrow> int \<Rightarrow> string" where
  "entry_text h m s = format_datetime ''full'' (at_time h m s) @ ''{Bash: pwd }''"

section \<open>A reference instance of the library functions\<close>

text \<open>
  The properties below hold for every \<open>lib\<close>.  To evaluate them on concrete inputs,
  \<open>lib_posix\<close> supplies a parser for the JSON grammar (objects, arrays, strings with
  their escapes, numbers, \<open>true\<close>, \<open>false\<close>, \<open>null\<close>; a float is kept as an exact
  decimal, and the extensions \<open>NaN\<close> and \<open>Infinity\<close> are left out), paths that are
  already normalised POSIX paths, and a fixed clock.
\<close>

definition json_ws :: "char \<Rightarrow> bool" where
  "json_ws c = (c = CHR '' '' \<or> c = CHR 0x09 \<or> c = CHR 0x0A \<or> c = CHR 0x0D)"

definition skip_ws :: "string \<Rightarrow> string" where
  "skip_ws s = dropWhile json_ws s"

definition hex_val :: "char \<Rightarrow> nat option" where
  "hex_val c =
     (let n = (of_char c :: nat)
      in if 48 \<le> n \<and> n \<le> 57 then Some (n - 48)
         else if 65 \<le> n \<and> n \<le> 70 then Some (n - 55)
         else if 97 \<le> n \<and> n \<le> 102 then Some (n - 87)
         else None)"

definition hex4 :: "string \<Rightarrow> nat option" where
  "hex4 s =
     (case map hex_val (take 4 s) of
        [Some a, Some b, Some c, Some d] \<Rightarrow> Some (4096 * a + 256 * b + 16 * c + d)
      | _ \<Rightarrow> None)"

definition utf8_encode :: "nat \<Rightarrow> string" where
  "utf8_encode cp =
     (if cp < 128 then [char_of cp]
      else if cp < 2048 then [char_of (192 + cp div 64), char_of (128 + cp mod 64)]
      else if cp < 65536 then
        [char_of (224 + cp div 4096), char_of (128 + (cp div 64) mod 64), char_of (128 + cp mod 64)]
      else [char_of (240 + cp div 262144), char_of (128 + (cp div 4096) mod 64),
            char_of (128 + (cp div 64) mod 64), char_of (128 + cp mod 64)])"

definition simple_escape :: "char \<Rightarrow> char option" where
  "simple_escape e =
     (if e = CHR 0x22 \<or> e = CHR 0x5C \<or> e = CHR ''/'' then Some e
      else if e = CHR ''b'' then Some (CHR 0x08)
      else if e = CHR ''f'' then Some (CHR 0x0C)
      else if e = CHR ''n'' then Some (CHR 0x0A)
      else if e = CHR ''r'' then Some (CHR 0x0D)
      else if e = CHR ''t'' then Some (CHR 0x09)
      else None)"

text \<open>The text of a string after its opening quote, and what follows the closing quote.\<close>

fun parse_string :: "nat \<Rightarrow> string \<Rightarrow> (string \<times> string) option" where
  "parse_string 0 s = None"
| "parse_string (Suc k) [] = None"
| "parse_string (Suc k) (c # r) =
     (if c = CHR 0x22 then Some ([], r)
      else if c = CHR 0x5C then
        (case r of
           [] \<Rightarrow> None
         | e # r1 \<Rightarrow>
             if e = CHR ''u'' then
               (case hex4 r1 of
                  None \<Rightarrow> None
                | Some hi \<Rightarrow>
                    (let r2 = drop 4 r1;
                         lo = (if 55296 \<le> hi \<and> hi < 56320 \<and> starts_with [CHR 0x5C, CHR ''u''] r2
                               then hex4 (drop 2 r2) else None)
                     in case lo of
                          Some lv \<Rightarrow>
                            if 56320 \<le> lv \<and> lv < 57344
                            then map_option (\<lambda>(t, u). (utf8_encode (65536 + (hi - 55296) * 1024 + (lv - 56320)) @ t, u))
                                   (parse_string k (drop 6 r2))
                            else map_option (\<lambda>(t, u). (utf8_encode hi @ t, u)) (parse_string k r2)
                        | None \<Rightarrow> map_option (\<lambda>(t, u). (utf8_encode hi @ t, u)) (parse_string k r2)))
             else (case simple_escape e of
                     None \<Rightarrow> None
                   | Some d \<Rightarrow> map_option (\<lambda>(t, u). (d # t, u)) (parse_string k r1)))
      else if (of_char c :: nat) < 32 then None
      else map_option (\<lambda>(t, u). (c # t, u)) (parse_string k r))"

text \<open>
  A number: \<open>-?(0|[1-9]\d*)(\.\d+)?([eE][+-]?\d+)?\<close>; an integer when it has neither
  fraction nor exponent.
\<close>

definition parse_number :: "string \<Rightarrow> (json \<times> string) option" where
  "parse_number s =
     (let (neg, s1) = (case s of c # r \<Rightarrow> if c = CHR ''-'' then (True, r) else (False, s) | [] \<Rightarrow> (False, s));
          ds = takeWhile is_digit s1;
          s2 = drop (length ds) s1
      in if ds = [] \<or> (length ds > 1 \<and> hd ds = CHR ''0'') then None
         else
           (let fs = (case s2 of c # r \<Rightarrow> if c = CHR ''.'' then takeWhile is_digit r else [] | [] \<Rightarrow> []);
                s3 = (if fs = [] then s2 else drop (Suc (length fs)) s2);
                (has_exp, eneg, es) =
                  (case s3 of
                     c # r \<Rightarrow>
                       if c = CHR ''e'' \<or> c = CHR ''E'' then
                         (case r of
                            d # r' \<Rightarrow>
                              if d = CHR ''-'' then (takeWhile is_digit r' \<noteq> [], True, takeWhile is_digit r')
                              else if d = CHR ''+'' then (takeWhile is_digit r' \<noteq> [], False, takeWhile is_digit r')
                              else (takeWhile is_digit r \<noteq> [], False, takeWhile is_digit r)
                          | [] \<Rightarrow> (False, False, []))
                       else (False, False, [])
                   | [] \<Rightarrow> (False, False, []));
                s4 = (if has_exp
                      then drop (Suc (length es) + (if s3 \<noteq> [] \<and> length s3 > 1
                                                        \<and> (s3 ! 1 = CHR ''-'' \<or> s3 ! 1 = CHR ''+'') then 1 else 0)) s3
                      else s3);
                sign = (if neg then - 1 else 1)
            in if fs = [] \<and> \<not> has_exp then Some (JInt (sign * int (digits_val ds)), s4)
               else Some (JFloat (sign * int (digits_val (ds @ fs)))
                                 ((if eneg then - int (digits_val es) else int (digits_val es))
                                  - int (length fs)), s4)))"

fun parse_value :: "nat \<Rightarrow> string \<Rightarrow> (json \<times> string) option"
  and parse_items :: "nat \<Rightarrow> string \<Rightarrow> (json list \<times> string) option"
  and parse_members :: "nat \<Rightarrow> string \<Rightarrow> ((string \<times> json) list \<times> string) option" where
  "parse_value 0 s = None"
| "parse_value (Suc k) s =
     (case s of
        [] \<Rightarrow> None
      | c # r \<Rightarrow>
          if c = CHR ''{'' then
            (case skip_ws r of
               [] \<Rightarrow> None
             | d # r' \<Rightarrow> if d = CHR ''}'' then Some (JObj [], r')
                         else map_option (\<lambda>(m, u). (JObj m, u)) (parse_members k (skip_ws r)))
          else if c = CHR ''['' then
            (case skip_ws r of
               [] \<Rightarrow> None
             | d # r' \<Rightarrow> if d = CHR '']'' then Some (JArr [], r')
                         else map_option (\<lambda>(m, u). (JArr m, u)) (parse_items k (skip_ws r)))
          else if c = CHR 0x22 then map_option (\<lambda>(t, u). (JStr t, u)) (parse_string (length s) r)
          else if starts_with ''true'' s then Some (JBool True, drop 4 s)
          else if starts_with ''false'' s then Some (JBool False, drop 5 s)
          else if starts_with ''null'' s then Some (JNull, drop 4 s)
          else parse_number s)"
| "parse_items 0 s = None"
| "parse_items (Suc k) s =
     (case parse_value k s of
        None \<Rightarrow> None
      | Some (v, r) \<Rightarrow>
          (case skip_ws r of
             [] \<Rightarrow> None
           | d # r' \<Rightarrow>
               if d = CHR '']'' then Some ([v], r')
               else if d = CHR '','' then map_option (\<lambda>(vs, u). (v # vs, u)) (parse_items k (skip_ws r'))
               else None))"
| "parse_members 0 s = None"
| "parse_members (Suc k) s =
     (case s of
        [] \<Rightarrow> None
      | q # r0 \<Rightarrow>
          if q \<noteq> CHR 0x22 then None
          else (case parse_string (length s) r0 of
                  None \<Rightarrow> None
                | Some (key, r1) \<Rightarrow>
                    (case skip_ws r1 of
                       [] \<Rightarrow> None
                     | c # r2 \<Rightarrow>
                         if c \<noteq> CHR '':'' then None
                         else (case parse_value k (skip_ws r2) of
                                 None \<Rightarrow> None
                               | Some (v, r3) \<Rightarrow>
                                   (case skip_ws r3 of
                                      [] \<Rightarrow> None
                                    | d # r4 \<Rightarrow>
                                        if d = CHR ''}'' then Some ([(key, v)], r4)
                                        else if d = CHR '','' then
                                          map_option (\<lambda>(ms, u). ((key, v) # ms, u))
                                            (parse_members k (skip_ws r4))
                                        else None)))))"

definition json_loads :: "string \<Rightarrow> exn + json" where
  "json_loads s =
     (case parse_value (2 * length s + 2) (skip_ws s) of
        None \<Rightarrow> Inl JSONDecodeError
      | Some (v, r) \<Rightarrow> if skip_ws r = [] then Inr v else Inl JSONDecodeError)"

text \<open>The parts of a normalised POSIX path.\<close>

fun split_on :: "char \<Rightarrow> string \<Rightarrow> string \<Rightarrow> string list" where
  "split_on sep cur [] = [cur]"
| "split_on sep cur (c # cs) = (if c = sep then cur # split_on sep [] cs else split_on sep (cur @ [c]) cs)"

definition posix_parts :: "string \<Rightarrow> string list" where
  "posix_parts p =
     (if starts_with ''/'' p then [''/''] else [])
     @ filter (\<lambda>x. x \<noteq> [] \<and> x \<noteq> ''.'') (split_on (CHR ''/'') [] p)"

definition lib_posix :: lib where
  "lib_posix = \<lparr>loads = json_loads, normalize = (\<lambda>p. p), parts_of = posix_parts,
                now_text = ''2024-03-01 12:00:00.000000''\<rparr>"





definition sessions_index :: "lib \<Rightarrow> string \<Rightarrow> string" where
  "sessions_index l transcript_path = path_join (path_parent (normalize l transcript_path)) ''sessions-index.json''"


text \<open>The stages of \<open>get_session_name\<close>, named: transcript, then index, then cache.\<close>

definition transcript_name :: "lib \<Rightarrow> world \<Rightarrow> string \<Rightarrow> json" where
  "transcript_name l w tp =
     (case read_text w (normalize l tp) of
        Inl e \<Rightarrow> JNull
      | Inr t \<Rightarrow> scan_transcript l JNull (text_lines t))"

definition primary_name :: "lib \<Rightarrow> world \<Rightarrow> string \<Rightarrow> string \<Rightarrow> json" where
  "primary_name l w sid tp =
     (if tp \<noteq> [] then
        (if \<not> json_truthy (transcript_name l w tp) then
           (case index_lookup l w (sessions_index l tp) sid of
              None \<Rightarrow> transcript_name l w tp
            | Some v \<Rightarrow> v)
         else transcript_name l w tp)
      else JNull)"

definition resolved_name :: "lib \<Rightarrow> world \<Rightarrow> string \<Rightarrow> string \<Rightarrow> json" where
  "resolved_name l w sid tp =
     (if \<not> json_truthy (primary_name l w sid tp) then
        (case read_text w (state_file sid ''.name-cache'') of
           Inl e \<Rightarrow> primary_name l w sid tp
         | Inr t \<Rightarrow> if strip t \<noteq> [] then JStr (strip t) else primary_name l w sid tp)
      else primary_name l w sid tp)"

definition write_through :: "world \<Rightarrow> string \<Rightarrow> json \<Rightarrow> world" where
  "write_through w sid name =
     (case name of
        JStr s \<Rightarrow> if s \<noteq> [] \<and> state_file sid ''.name-cache'' \<notin> unwritable w
                  then w\<lparr>files := (files w)(state_file sid ''.name-cache'' \<mapsto> s)\<rparr> else w
      | _ \<Rightarrow> w)"

definition quoted :: "string \<Rightarrow> string" where
  "quoted s = [CHR 0x22] @ s @ [CHR 0x22]"

definition title_line :: "string \<Rightarrow> string" where
  "title_line t = ''{'' @ quoted ''type'' @ '':'' @ quoted ''custom-title'' @ '','' @ quoted ''customTitle''
                  @ '':'' @ quoted t @ ''}''"

definition index_text :: "string \<Rightarrow> string \<Rightarrow> string" where
  "index_text session_id t =
     ''{'' @ quoted ''entries'' @ '': [{'' @ quoted ''sessionId'' @ '': '' @ quoted session_id @ '', ''
     @ quoted ''customTitle'' @ '': '' @ quoted t @ ''}]}''"

definition w_names :: world where
  "w_names = \<lparr>files = [''/p/t1.jsonl'' \<mapsto> title_line ''first'' @ [newline] @ ''{}'' @ [newline]
                                          @ title_line ''second'' @ [newline],
                       ''/p/sessions-index.json'' \<mapsto> index_text ''abc'' ''from-index'',
                       ''/q/t2.jsonl'' \<mapsto> ''{}'' @ [newline],
                       ''/q/sessions-index.json'' \<mapsto> index_text ''abc'' ''from-index'',
                       ''/r/t3.jsonl'' \<mapsto> ''{}'' @ [newline],
                       state_file ''abc'' ''.name-cache'' \<mapsto> '' cached '' @ [newline]],
              unreadable = {}, unwritable = {}\<rparr>"

text \<open>
  \<open>cut50\<close> is the truncation of a joined name, \<open>cwd_parts\<close> the list \<open>parts\<close> of
  \<open>derive_session_name_from_cwd\<close>, and \<open>auto_name_view\<close> what an auto-naming leaves in
  some files.
\<close>

definition cut50 :: "string \<Rightarrow> string" where
  "cut50 s = (if length s > 50 then before_last_sep (take 50 s) else s)"

definition cwd_parts :: "lib \<Rightarrow> string \<Rightarrow> (string \<times> string \<times> bool) list" where
  "cwd_parts l cwd = usable_parts (parts_of l cwd)"

definition auto_name_view ::
  "exn + (string option \<times> world) \<Rightarrow> string list \<Rightarrow> (string option \<times> string option list) option" where
  "auto_name_view r ps = (case r of Inl e \<Rightarrow> None | Inr (n, w) \<Rightarrow> Some (n, map (files w) ps))"

definition long_name :: "nat \<Rightarrow> string" where
  "long_name n = replicate n (CHR ''a'')"

subsection \<open>Outcomes of a run\<close>








section \<open>Properties\<close>

subsection \<open>Numbers as text\<close>

lemma digit_char_is_digit: "d < 10 \<Longrightarrow> is_digit (digit_char d)"
  by (simp add: is_digit_def digit_char_def)


lemma dec_digits: "list_all is_digit (dec n)"
proof (induction n rule: dec.induct)
  case (1 n)
  show ?case
  proof (cases "n < 10")
    case True
    then show ?thesis by (subst dec.simps) (simp add: digit_char_is_digit)
  next
    case False
    with 1 show ?thesis by (subst dec.simps) (simp add: digit_char_is_digit)
  qed
qed

lemma dec_nonempty: "dec n \<noteq> []"
  by (subst dec.simps) simp









lemma dec_hd: "\<exists>c cs. dec n = c # cs \<and> is_digit c"
  using dec_digits[of n] dec_nonempty[of n] by (cases "dec n") auto





subsection \<open>Lines and markers\<close>








lemma bar80_no_newline: "newline \<notin> set bar80"
  by (simp add: bar80_def newline_def)






subsection \<open>Run numbers\<close>









subsection \<open>Appending\<close>





lemma atomic_append_success:
  assumes "\<not> parent_mkdir_fails af" "\<not> mkstemp_fails af"
    "files w (fp @ ''.'' @ mkstemp_random af @ ''.tmp'') = None"
    "fp \<notin> unreadable w" "\<not> temp_write_fails af" "\<not> move_fails af"
  shows "atomic_append af w fp content gap =
           Inr (w\<lparr>files := (files w)(fp \<mapsto>
                   (case files w fp of None \<Rightarrow> [] | Some t \<Rightarrow> strip_nul (universal_newlines t))
                   @ (if gap then [newline] else []) @ strip_nul content @ [newline])\<rparr>)"
  using assms by (simp add: atomic_append_def read_text_def Let_def split: option.splits)

lemma atomic_append_failure:
  assumes "\<not> parent_mkdir_fails af"
    "mkstemp_fails af \<or> files w (fp @ ''.'' @ mkstemp_random af @ ''.tmp'') \<noteq> None
       \<or> (files w fp \<noteq> None \<and> fp \<in> unreadable w) \<or> temp_write_fails af \<or> move_fails af"
  shows "atomic_append af w fp content gap = Inr (write_to_overflow af w fp (strip_nul content) gap)"
  using assms by (auto simp add: atomic_append_def read_text_def Let_def split: option.splits)




subsection \<open>Reconciliation without a session name\<close>

text \<open>
  Claim C10.  Called with an absent (\<open>None\<close>) or empty session name,
  \<open>reconcile_session_files\<close> returns the empty mapping and leaves the directory
  listing exactly as it was: no entry is renamed, whatever the directory holds and
  whatever the operating system would do.
\<close>

theorem reconcile_session_files_unnamed:
  "reconcile_session_files io d sid None sh u = (d, [])
   \<and> reconcile_session_files io d sid (Some []) sh u = (d, [])"
  by (simp add: reconcile_session_files_def)

subsection \<open>Markers written by a run\<close>

lemma universal_newlines_no_cr: "carriage_return \<notin> set (universal_newlines s)"
  by (induction s rule: universal_newlines.induct) (auto simp: newline_def carriage_return_def split: list.splits)

















lemma plain_no_cr_text:
  assumes "carriage_return \<notin> set a" "plain_line m"
  shows "carriage_return \<notin> set (a @ m @ [newline])"
  using assms by (auto simp: plain_line_def newline_def carriage_return_def)










subsection \<open>The outcomes of an append\<close>




subsection \<open>The time gap\<close>

text \<open>
  Claim C7, as the code has it.  \<open>check_time_gap\<close> reports a gap exactly when the mode
  is not \<open>none\<close>, the file can be read and has a last line, that line carries a time
  stamp that parses in the date-and-time format or in the date format, and the time from
  it to the event is at least \<open>gap_seconds\<close> (compared in microseconds).  It reports
  no gap when the mode is \<open>none\<close>, when the file is missing, and when the last line
  carries no stamp that parses.
\<close>

theorem check_time_gap_spec:
  fixes w :: world
  shows
  "check_time_gap w fp mode ev gap =
     (mode \<noteq> ''none'' \<and>
      (\<exists>t lt. read_text w fp = Inr t \<and> text_lines t \<noteq> [] \<and> line_stamp (last (text_lines t)) = Some lt
              \<and> microseconds ev - microseconds lt \<ge> gap * 1000000))
   \<and> (mode = ''none'' \<or> files w fp = None \<longrightarrow> \<not> check_time_gap w fp mode ev gap)
   \<and> (\<forall>t. read_text w fp = Inr t \<and> (text_lines t = [] \<or> line_stamp (last (text_lines t)) = None)
          \<longrightarrow> \<not> check_time_gap w fp mode ev gap)"
  by (auto simp: check_time_gap_def line_stamp_def read_text_def Let_def split: option.splits sum.splits)

text \<open>
  The claim as stated asks for an elapsed time that exceeds the threshold.  At exactly
  1800 seconds the code compares with \<open>>=\<close> and reports a gap.
\<close>

theorem check_time_gap_threshold_counterexample:
  "microseconds (at_time 12 30 0) - microseconds (at_time 12 0 0) = 1800 * 1000000
   \<and> line_stamp (last (text_lines shell_text)) = Some (at_time 12 0 0)
   \<and> files w_gap ''shell.log'' = Some shell_text
   \<and> check_time_gap w_gap ''shell.log'' ''full'' (at_time 12 30 0) 1800"
  by code_simp

text \<open>
  The theorem at 1799, 1801 and (date only) 1800 seconds, and the entry written by
  \<open>log_entry\<close>: no blank line at 1799 seconds, exactly one at 1801.
\<close>

theorem check_time_gap_spec_witness:
  "\<not> check_time_gap w_gap ''shell.log'' ''full'' (at_time 12 29 59) 1800
   \<and> check_time_gap w_gap ''shell.log'' ''full'' (at_time 12 30 1) 1800
   \<and> \<not> check_time_gap w_gap ''shell.log'' ''none'' (at_time 13 0 0) 1800
   \<and> \<not> check_time_gap w_gap ''missing.log'' ''full'' (at_time 13 0 0) 1800
   \<and> \<not> check_time_gap w_gap ''sess.log'' ''full'' (at_time 0 29 59) 1800
   \<and> check_time_gap w_gap ''sess.log'' ''full'' (at_time 0 30 0) 1800
   \<and> file_after (log_entry af_ok w_gap ''shell.log'' ''sess.log'' ''tasks.log'' ''full'' (entry_text 12 29 59)
                    ''bash'' None (at_time 12 29 59)) ''shell.log''
        = Some (shell_text @ entry_text 12 29 59 @ [newline])
      \<and> file_after (log_entry af_ok w_gap ''shell.log'' ''sess.log'' ''tasks.log'' ''full'' (entry_text 12 30 1)
                    ''bash'' None (at_time 12 30 1)) ''shell.log''
        = Some (shell_text @ [newline] @ entry_text 12 30 1 @ [newline])"
proof -
  have g: "file_after (log_entry af_ok w_gap ''shell.log'' ''sess.log'' ''tasks.log'' ''full'' (entry_text 12 29 59)
                           ''bash'' None (at_time 12 29 59)) ''shell.log''
               = Some (shell_text @ entry_text 12 29 59 @ [newline])
             \<and> file_after (log_entry af_ok w_gap ''shell.log'' ''sess.log'' ''tasks.log'' ''full'' (entry_text 12 30 1)
                           ''bash'' None (at_time 12 30 1)) ''shell.log''
               = Some (shell_text @ [newline] @ entry_text 12 30 1 @ [newline])"
    by code_simp
  have rt: "read_text w_gap ''shell.log'' = Inr shell_text"
    by code_simp
  have tl: "text_lines shell_text \<noteq> []" by code_simp
  have ls: "line_stamp (last (text_lines shell_text)) = Some (at_time 12 0 0)" by code_simp
  have d1: "\<not> microseconds (at_time 12 29 59) - microseconds (at_time 12 0 0) \<ge> 1800 * 1000000"
    by code_simp
  have d2: "microseconds (at_time 12 30 1) - microseconds (at_time 12 0 0) \<ge> 1800 * 1000000"
    by code_simp
  have a: "\<not> check_time_gap w_gap ''shell.log'' ''full'' (at_time 12 29 59) 1800"
    using check_time_gap_spec[of w_gap "''shell.log''" "''full''" "at_time 12 29 59" 1800] rt ls d1
    by auto
  have b: "check_time_gap w_gap ''shell.log'' ''full'' (at_time 12 30 1) 1800"
    using check_time_gap_spec[of w_gap "''shell.log''" "''full''" "at_time 12 30 1" 1800] rt tl ls d2
    by auto
  have c: "\<not> check_time_gap w_gap ''shell.log'' ''none'' (at_time 13 0 0) 1800"
    using check_time_gap_spec[of w_gap "''shell.log''" "''none''" "at_time 13 0 0" 1800] by blast
  have "files w_gap ''missing.log'' = None" by (simp add: w_gap_def)
  then have d: "\<not> check_time_gap w_gap ''missing.log'' ''full'' (at_time 13 0 0) 1800"
    using check_time_gap_spec[of w_gap "''missing.log''" "''full''" "at_time 13 0 0" 1800] by blast
  have rt2: "read_text w_gap ''sess.log'' = Inr (''[[2024-03-01]] {Bash: ls }'' @ [newline])"
    by code_simp
  have tl2: "text_lines (''[[2024-03-01]] {Bash: ls }'' @ [newline]) \<noteq> []" by code_simp
  have ls2: "line_stamp (last (text_lines (''[[2024-03-01]] {Bash: ls }'' @ [newline]))) = Some (at_time 0 0 0)"
    by code_simp
  have d3: "\<not> microseconds (at_time 0 29 59) - microseconds (at_time 0 0 0) \<ge> 1800 * 1000000"
    by code_simp
  have d4: "microseconds (at_time 0 30 0) - microseconds (at_time 0 0 0) \<ge> 1800 * 1000000"
    by code_simp
  have e: "\<not> check_time_gap w_gap ''sess.log'' ''full'' (at_time 0 29 59) 1800"
    using check_time_gap_spec[of w_gap "''sess.log''" "''full''" "at_time 0 29 59" 1800] rt2 ls2 d3
    by auto
  have f: "check_time_gap w_gap ''sess.log'' ''full'' (at_time 0 30 0) 1800"
    using check_time_gap_spec[of w_gap "''sess.log''" "''full''" "at_time 0 30 0" 1800] rt2 tl2 ls2 d4
    by auto
  show ?thesis using a b c d e f g by blast
qed

subsection \<open>The session name\<close>





lemma write_through_step:
  "(if json_truthy n then
      (case n of
         JStr s \<Rightarrow> (case write_text w (state_file sid ''.name-cache'') s of Inl e \<Rightarrow> (n, w) | Inr w' \<Rightarrow> (n, w'))
       | _ \<Rightarrow> (n, w))
    else (n, w)) = (n, write_through w sid n)"
  by (cases n) (simp_all add: write_through_def write_text_def)

lemma get_session_name_unfold:
  "get_session_name l w sid tp = (resolved_name l w sid tp, write_through w sid (resolved_name l w sid tp))"
proof -
  have "get_session_name l w sid tp =
          (if json_truthy (resolved_name l w sid tp) then
             (case resolved_name l w sid tp of
                JStr s \<Rightarrow> (case write_text w (state_file sid ''.name-cache'') s of
                             Inl e \<Rightarrow> (resolved_name l w sid tp, w)
                           | Inr w' \<Rightarrow> (resolved_name l w sid tp, w'))
              | _ \<Rightarrow> (resolved_name l w sid tp, w))
           else (resolved_name l w sid tp, w))"
    unfolding get_session_name_def resolved_name_def primary_name_def transcript_name_def
      sessions_index_def Let_def
    by (rule refl)
  then show ?thesis by (simp only: write_through_step)
qed







subsection \<open>Naming after the working directory\<close>

lemma filter_rev_upt_Cons:
  "filter P (rev [0..<n]) = i # u \<Longrightarrow> i < n \<and> P i \<and> (\<forall>j. i < j \<and> j < n \<longrightarrow> \<not> P j)"
proof (induction n)
  case 0
  then show ?case by simp
next
  case (Suc n)
  show ?case
  proof (cases "P n")
    case True
    with Suc.prems have "i = n" by simp
    with True show ?thesis by auto
  next
    case False
    with Suc.prems have "filter P (rev [0..<n]) = i # u" by simp
    from Suc.IH[OF this] False show ?thesis
      by (metis less_Suc_eq)
  qed
qed

lemma filter_rev_upt_Nil:
  "filter P (rev [0..<n]) = [] \<Longrightarrow> j < n \<Longrightarrow> \<not> P j"
  by (auto simp: filter_empty_conv)

lemma start_index_nearest:
  "(start_index parts < length parts - 1 \<and> is_specific (parts ! start_index parts)
      \<and> (\<forall>j. start_index parts < j \<and> j < length parts - 1 \<longrightarrow> \<not> is_specific (parts ! j)))
   \<or> (start_index parts = 0 \<and> (\<forall>j. j < length parts - 1 \<longrightarrow> \<not> is_specific (parts ! j)))"
proof (cases "filter (\<lambda>i. is_specific (parts ! i)) (rev [0..<length parts - 1])")
  case Nil
  then have "start_index parts = 0" by (simp add: start_index_def)
  moreover have "\<forall>j. j < length parts - 1 \<longrightarrow> \<not> is_specific (parts ! j)"
    using filter_rev_upt_Nil[OF Nil] by blast
  ultimately show ?thesis by blast
next
  case (Cons i u)
  then have "start_index parts = i" by (simp add: start_index_def)
  with filter_rev_upt_Cons[OF Cons] show ?thesis by blast
qed

lemma before_last_sep_boundary:
  "(\<exists>r. s = before_last_sep s @ ''--'' @ r)
   \<or> (before_last_sep s = s \<and> (\<forall>k. \<not> starts_with ''--'' (drop k s)))"
proof (cases "filter (\<lambda>k. starts_with ''--'' (drop k s)) (rev [0..<length s])")
  case Nil
  then have b: "before_last_sep s = s" by (simp add: before_last_sep_def)
  have "\<not> starts_with ''--'' (drop k s)" for k
  proof (cases "k < length s")
    case True
    then show ?thesis using filter_rev_upt_Nil[OF Nil] by blast
  next
    case False
    then show ?thesis by (simp add: starts_with_def)
  qed
  with b show ?thesis by blast
next
  case (Cons k u)
  then have b: "before_last_sep s = take k s" by (simp add: before_last_sep_def)
  from filter_rev_upt_Cons[OF Cons] have "starts_with ''--'' (drop k s)" by blast
  then have "drop k s = ''--'' @ drop 2 (drop k s)"
    unfolding starts_with_def by (metis append_take_drop_id length_Cons list.size(3) numeral_2_eq_2)
  then have "s = take k s @ ''--'' @ drop 2 (drop k s)"
    by (metis append_take_drop_id)
  with b show ?thesis by metis
qed

lemma before_last_sep_length: "length (before_last_sep s) \<le> length s"
  by (simp add: before_last_sep_def split: list.splits)

lemma usable_parts_nonempty: "p \<in> set (usable_parts xs) \<Longrightarrow> fst p \<noteq> []"
  by (auto simp: usable_parts_def)

lemma usable_parts_length: "length (usable_parts xs) \<le> 4"
proof -
  have "length (usable_parts xs) \<le> length (drop (length xs - 4) xs)"
    unfolding usable_parts_def by (metis length_filter_le length_map)
  then show ?thesis by simp
qed

lemma usable_names: "filter (\<lambda>x. length x \<ge> 1) (map fst (drop k (usable_parts xs))) = map fst (drop k (usable_parts xs))"
proof -
  have "\<forall>x \<in> set (map fst (drop k (usable_parts xs))). length x \<ge> 1"
    using usable_parts_nonempty[of _ xs] by (auto dest!: in_set_dropD simp: Suc_le_eq)
  then show ?thesis by (simp add: filter_id_conv)
qed

lemma cut50_length: "length (cut50 s) \<le> 50"
  using before_last_sep_length[of "take 50 s"] by (auto simp: cut50_def)

lemma derive_leaf:
  assumes "cwd \<noteq> []" "usable_parts (parts_of l cwd) \<noteq> []"
    "is_specific (last (usable_parts (parts_of l cwd)))" "length (fst (last (usable_parts (parts_of l cwd)))) \<ge> 3"
  shows "derive_session_name_from_cwd l cwd = Some (take 50 (fst (last (usable_parts (parts_of l cwd)))))"
  using assms by (simp add: derive_session_name_from_cwd_def Let_def)

lemma derive_joined:
  assumes "cwd \<noteq> []" "usable_parts (parts_of l cwd) \<noteq> []"
    "\<not> (is_specific (last (usable_parts (parts_of l cwd))) \<and> length (fst (last (usable_parts (parts_of l cwd)))) \<ge> 3)"
  shows "derive_session_name_from_cwd l cwd =
           Some (cut50 (join_sep (map fst (drop (start_index (usable_parts (parts_of l cwd)))
                                                 (usable_parts (parts_of l cwd))))))"
proof -
  let ?ps = "usable_parts (parts_of l cwd)"
  have lt: "start_index ?ps < length ?ps"
    using start_index_nearest[of ?ps] assms(2) by (cases ?ps) auto
  then have ne: "map fst (drop (start_index ?ps) ?ps) \<noteq> []" by simp
  show ?thesis
    using assms ne
    by (auto simp add: derive_session_name_from_cwd_def Let_def usable_names cut50_def simp del: One_nat_def)
qed

lemma derive_none:
  "cwd = [] \<or> usable_parts (parts_of l cwd) = [] \<Longrightarrow> derive_session_name_from_cwd l cwd = None"
  by (auto simp: derive_session_name_from_cwd_def Let_def)

lemma apply_auto_name_frame:
  fixes w :: world
  assumes "apply_auto_name_on_session_start l w sid tp cwd hook = Inr (r, w')"
  shows "(\<forall>p. p \<noteq> state_file sid ''.name-cache'' \<longrightarrow> files w' p = files w p)
         \<and> (\<forall>n. r = Some n \<longrightarrow> hook = ''SessionStart'' \<and> derive_session_name_from_cwd l cwd = Some n
                    \<and> \<not> json_truthy (fst (get_session_name l w sid tp))
                    \<and> files w' (state_file sid ''.name-cache'') = Some n)"
proof (cases "hook = ''SessionStart''")
  case False
  with assms show ?thesis by (simp add: apply_auto_name_on_session_start_def)
next
  case True
  obtain en w1 where g: "get_session_name l w sid tp = (en, w1)" by (cases "get_session_name l w sid tp")
  have w1: "w1 = write_through w sid en" "en = resolved_name l w sid tp"
    using g by (auto simp add: get_session_name_unfold)
  have f1: "\<forall>p. p \<noteq> state_file sid ''.name-cache'' \<longrightarrow> files w1 p = files w p"
    unfolding w1(1) by (cases en) (simp_all add: write_through_def)
  show ?thesis
  proof (cases "json_truthy en")
    case t: True
    with assms True g have "r = None" "w' = w1"
      by (simp_all add: apply_auto_name_on_session_start_def)
    with f1 show ?thesis by simp
  next
    case f: False
    then have w1w: "w1 = w" unfolding w1(1) by (cases en) (simp_all add: write_through_def)
    show ?thesis
    proof (cases "derive_session_name_from_cwd l cwd")
      case None
      with assms True g f have "r = None" "w' = w1"
        by (simp_all add: apply_auto_name_on_session_start_def)
      with f1 show ?thesis by simp
    next
      case (Some a)
      show ?thesis
        using assms True g f Some w1w
        by (auto simp: apply_auto_name_on_session_start_def mkdir_p_def write_text_def
            split: if_splits)
    qed
  qed
qed


text \<open>
  Claim C9, as the code has it.  Of the last four parts of the path, those whose
  sanitized name is not empty are kept.  When the last of them is specific (its raw name
  in lower case is not in the denylist and its sanitized name is no drive letter) and
  its sanitized name has at least three characters, the candidate is that sanitized name
  cut to its first 50 characters.  Otherwise the candidate joins, with \<open>--\<close>, the
  sanitized names from the nearest specific part before the last one (from the first
  kept part when there is none) to the last, and a joined name longer than 50 characters
  is cut to its first 50 characters and then back to before the last \<open>--\<close> in them,
  when there is one.  No candidate is longer than 50 characters.  On any hook but
  \<open>SessionStart\<close> nothing is done; on \<open>SessionStart\<close> no file but the name cache of
  the session changes (so the transcript is never written), and a name that is applied
  is the candidate, for a session without a name, and is what the cache then holds.
\<close>

theorem derive_session_name_spec:
  fixes w :: world
  shows
  "(cwd \<noteq> [] \<and> cwd_parts l cwd \<noteq> [] \<and> is_specific (last (cwd_parts l cwd))
      \<and> length (fst (last (cwd_parts l cwd))) \<ge> 3
      \<longrightarrow> derive_session_name_from_cwd l cwd = Some (take 50 (fst (last (cwd_parts l cwd)))))
   \<and> (cwd \<noteq> [] \<and> cwd_parts l cwd \<noteq> []
       \<and> \<not> (is_specific (last (cwd_parts l cwd)) \<and> length (fst (last (cwd_parts l cwd))) \<ge> 3)
      \<longrightarrow> derive_session_name_from_cwd l cwd =
            Some (cut50 (join_sep (map fst (drop (start_index (cwd_parts l cwd)) (cwd_parts l cwd))))))
   \<and> (cwd = [] \<or> cwd_parts l cwd = [] \<longrightarrow> derive_session_name_from_cwd l cwd = None)
   \<and> length (cwd_parts l cwd) \<le> 4
   \<and> ((start_index (cwd_parts l cwd) < length (cwd_parts l cwd) - 1
         \<and> is_specific (cwd_parts l cwd ! start_index (cwd_parts l cwd))
         \<and> (\<forall>j. start_index (cwd_parts l cwd) < j \<and> j < length (cwd_parts l cwd) - 1
                \<longrightarrow> \<not> is_specific (cwd_parts l cwd ! j)))
        \<or> (start_index (cwd_parts l cwd) = 0
            \<and> (\<forall>j. j < length (cwd_parts l cwd) - 1 \<longrightarrow> \<not> is_specific (cwd_parts l cwd ! j))))
   \<and> (\<forall>n. derive_session_name_from_cwd l cwd = Some n \<longrightarrow> length n \<le> 50)
   \<and> (length s > 50 \<longrightarrow>
        (\<exists>r. take 50 s = cut50 s @ ''--'' @ r)
        \<or> (cut50 s = take 50 s \<and> (\<forall>k. \<not> starts_with ''--'' (drop k (take 50 s)))))
   \<and> (length s \<le> 50 \<longrightarrow> cut50 s = s)
   \<and> (hook \<noteq> ''SessionStart'' \<longrightarrow> apply_auto_name_on_session_start l w sid tp cwd hook = Inr (None, w))
   \<and> (\<forall>r w'. apply_auto_name_on_session_start l w sid tp cwd hook = Inr (r, w') \<longrightarrow>
          (\<forall>p. p \<noteq> state_file sid ''.name-cache'' \<longrightarrow> files w' p = files w p)
          \<and> (\<forall>n. r = Some n \<longrightarrow> hook = ''SessionStart'' \<and> derive_session_name_from_cwd l cwd = Some n
                     \<and> \<not> json_truthy (fst (get_session_name l w sid tp))
                     \<and> files w' (state_file sid ''.name-cache'') = Some n))"
proof -
  have a: "cwd \<noteq> [] \<and> cwd_parts l cwd \<noteq> [] \<and> is_specific (last (cwd_parts l cwd))
      \<and> length (fst (last (cwd_parts l cwd))) \<ge> 3
      \<longrightarrow> derive_session_name_from_cwd l cwd = Some (take 50 (fst (last (cwd_parts l cwd))))"
    unfolding cwd_parts_def using derive_leaf[of cwd l] by blast
  have b: "cwd \<noteq> [] \<and> cwd_parts l cwd \<noteq> []
       \<and> \<not> (is_specific (last (cwd_parts l cwd)) \<and> length (fst (last (cwd_parts l cwd))) \<ge> 3)
      \<longrightarrow> derive_session_name_from_cwd l cwd =
            Some (cut50 (join_sep (map fst (drop (start_index (cwd_parts l cwd)) (cwd_parts l cwd)))))"
    unfolding cwd_parts_def using derive_joined[of cwd l] by blast
  have c: "cwd = [] \<or> cwd_parts l cwd = [] \<longrightarrow> derive_session_name_from_cwd l cwd = None"
    unfolding cwd_parts_def using derive_none[of cwd l] by blast
  have d: "length (cwd_parts l cwd) \<le> 4" unfolding cwd_parts_def by (rule usable_parts_length)
  note e = start_index_nearest[of "cwd_parts l cwd"]
  have f: "\<forall>n. derive_session_name_from_cwd l cwd = Some n \<longrightarrow> length n \<le> 50"
  proof (intro allI impI)
    fix n assume n: "derive_session_name_from_cwd l cwd = Some n"
    then have ne: "cwd \<noteq> []" "cwd_parts l cwd \<noteq> []" using c by auto
    show "length n \<le> 50"
    proof (cases "is_specific (last (cwd_parts l cwd)) \<and> length (fst (last (cwd_parts l cwd))) \<ge> 3")
      case True
      with a ne n show ?thesis by auto
    next
      case False
      with b ne n show ?thesis using cut50_length by auto
    qed
  qed
  have g: "length s > 50 \<longrightarrow>
        (\<exists>r. take 50 s = cut50 s @ ''--'' @ r)
        \<or> (cut50 s = take 50 s \<and> (\<forall>k. \<not> starts_with ''--'' (drop k (take 50 s))))"
    using before_last_sep_boundary[of "take 50 s"] by (auto simp: cut50_def)
  have h: "length s \<le> 50 \<longrightarrow> cut50 s = s" by (simp add: cut50_def)
  have i: "hook \<noteq> ''SessionStart'' \<longrightarrow> apply_auto_name_on_session_start l w sid tp cwd hook = Inr (None, w)"
    by (simp add: apply_auto_name_on_session_start_def)
  have j: "\<forall>r w'. apply_auto_name_on_session_start l w sid tp cwd hook = Inr (r, w') \<longrightarrow>
          (\<forall>p. p \<noteq> state_file sid ''.name-cache'' \<longrightarrow> files w' p = files w p)
          \<and> (\<forall>n. r = Some n \<longrightarrow> hook = ''SessionStart'' \<and> derive_session_name_from_cwd l cwd = Some n
                     \<and> \<not> json_truthy (fst (get_session_name l w sid tp))
                     \<and> files w' (state_file sid ''.name-cache'') = Some n)"
    using apply_auto_name_frame by blast
  show ?thesis using a b c d e f g h i j by blast
qed

text \<open>
  The claim as stated fails for a leaf of 51 characters: the candidate is not the leaf
  but its first 50 characters, cut inside the segment.  And the denylist is tested on the
  raw leaf: \<open>Home!\<close> is not in the list, so its sanitized name \<open>home\<close> is used alone.
\<close>

theorem derive_session_name_counterexample:
  "derive_session_name_from_cwd lib_posix (''/home/user/'' @ long_name 51) = Some (long_name 50)
   \<and> derive_session_name_from_cwd lib_posix ''/srv/team/Home!'' = Some ''home''
   \<and> ''home'' \<in> set GENERIC_FOLDER_NAMES"
  by code_simp

text \<open>The theorem on three paths and on two hooks.\<close>

theorem derive_session_name_spec_witness:
  "derive_session_name_from_cwd lib_posix ''/home/user/my-project'' = Some ''my-project''
   \<and> derive_session_name_from_cwd lib_posix ''/home/alice/projects/src'' = Some ''alice--projects--src''
   \<and> derive_session_name_from_cwd lib_posix (''/'' @ long_name 40 @ ''/projects/src'') = Some (long_name 40)
   \<and> apply_auto_name_on_session_start lib_posix w_names ''zzz'' [] ''/home/user/my-project'' ''PostToolUse''
       = Inr (None, w_names)
   \<and> auto_name_view
         (apply_auto_name_on_session_start lib_posix w_names ''zzz'' [] ''/home/user/my-project'' ''SessionStart'')
         [state_file ''zzz'' ''.name-cache'', ''/p/t1.jsonl'']
       = Some (Some ''my-project'', [Some ''my-project'', files w_names ''/p/t1.jsonl''])"
proof -
  have pa: "cwd_parts lib_posix ''/home/user/my-project''
              = [(''home'', ''home'', False), (''user'', ''user'', False), (''my-project'', ''my-project'', False)]"
    by code_simp
  have a1: "is_specific (''my-project'', ''my-project'', False)" by code_simp
  have a: "derive_session_name_from_cwd lib_posix ''/home/user/my-project'' = Some ''my-project''"
    using derive_session_name_spec[of "''/home/user/my-project''" lib_posix "[]" "[]" w_names "[]" "[]"] a1
    by (simp add: pa)
  have pb: "cwd_parts lib_posix ''/home/alice/projects/src''
              = [(''home'', ''home'', False), (''alice'', ''alice'', False), (''projects'', ''projects'', False),
                 (''src'', ''src'', False)]"
    by code_simp
  have b1: "\<not> is_specific (''src'', ''src'', False)" by code_simp
  have b2: "start_index [(''home'', ''home'', False), (''alice'', ''alice'', False),
                         (''projects'', ''projects'', False), (''src'', ''src'', False)] = 1"
    by code_simp
  have b3: "cut50 (join_sep [''alice'', ''projects'', ''src'']) = ''alice--projects--src''" by code_simp
  have b: "derive_session_name_from_cwd lib_posix ''/home/alice/projects/src'' = Some ''alice--projects--src''"
    using derive_session_name_spec[of "''/home/alice/projects/src''" lib_posix "[]" "[]" w_names "[]" "[]"] b1 b3
    by (simp add: pb b2)
  define p where "p = ''/'' @ long_name 40 @ ''/projects/src''"
  have pc: "cwd_parts lib_posix p
              = [(long_name 40, long_name 40, False), (''projects'', ''projects'', False), (''src'', ''src'', False)]"
    unfolding p_def by code_simp
  have c2: "start_index [(long_name 40, long_name 40, False), (''projects'', ''projects'', False),
                         (''src'', ''src'', False)] = 0"
    by code_simp
  have c3: "cut50 (join_sep [long_name 40, ''projects'', ''src'']) = long_name 40" by code_simp
  have pne: "p \<noteq> []" by (simp add: p_def)
  have c: "derive_session_name_from_cwd lib_posix p = Some (long_name 40)"
    using derive_session_name_spec[of p lib_posix "[]" "[]" w_names "[]" "[]"] b1 c3 pne
    by (simp add: pc c2)
  have d: "apply_auto_name_on_session_start lib_posix w_names ''zzz'' [] ''/home/user/my-project'' ''PostToolUse''
       = Inr (None, w_names)"
    using derive_session_name_spec[of "''/home/user/my-project''" lib_posix "[]" "''PostToolUse''" w_names "''zzz''" "[]"]
    by simp
  have e: "auto_name_view
         (apply_auto_name_on_session_start lib_posix w_names ''zzz'' [] ''/home/user/my-project'' ''SessionStart'')
         [state_file ''zzz'' ''.name-cache'', ''/p/t1.jsonl'']
       = Some (Some ''my-project'', [Some ''my-project'', files w_names ''/p/t1.jsonl''])"
    by code_simp
  show ?thesis using a b c d e unfolding p_def by blast
qed

subsection \<open>The entry point\<close>



















text \<open>
  C8.  Standard input that is not valid UTF-8 (here the single byte 0xFF), and therefore
  not valid JSON: decoding raises \<open>UnicodeDecodeError\<close> inside the \<open>try\<close> block, whose
  handler names \<open>JSONDecodeError\<close> only.  The run prints no acknowledgment and ends
  with the uncaught exception.
\<close>

theorem main_undecodable_input:
  "main l ops [CHR 0xFF] s =
     ([], Uncaught UnicodeDecodeError,
      debug_log l ''JSON keys will be logged after parse'' (debug_log l ''Hook started (Python)'' s))"
  by (simp add: main_def Let_def utf8_decode_def)




end
